theory Spec2Isabelle
  imports Complex_Main "HOL-Library.Word" "HOL-Library.Sublist" "HOL-Library.Multiset"
begin

unbundle bit_operations_syntax

section \<open>JavaScript values, errors and built-ins\<close>

text \<open>
  The error classes the programs throw and test with \<open>instanceof\<close>. \<open>Error\<close> and
  \<open>TypeError\<close> are the built-in classes; \<open>OtherError name message\<close> stands for an error
  of any other class (a driver's I/O error, say).
\<close>

datatype js_error =
    ValidationError string
  | AuthTokenTimestampValidationError string
  | BadPathError string
  | NotEnoughProofError string
  | Error string
  | TypeError string
  | OtherError string string

fun err_message :: "js_error \<Rightarrow> string" where
  "err_message (ValidationError m) = m"
| "err_message (AuthTokenTimestampValidationError m) = m"
| "err_message (BadPathError m) = m"
| "err_message (NotEnoughProofError m) = m"
| "err_message (Error m) = m"
| "err_message (TypeError m) = m"
| "err_message (OtherError n m) = m"

fun err_name :: "js_error \<Rightarrow> string" where
  "err_name (ValidationError m) = ''ValidationError''"
| "err_name (AuthTokenTimestampValidationError m) = ''AuthTokenTimestampValidationError''"
| "err_name (BadPathError m) = ''BadPathError''"
| "err_name (NotEnoughProofError m) = ''NotEnoughProofError''"
| "err_name (Error m) = ''Error''"
| "err_name (TypeError m) = ''TypeError''"
| "err_name (OtherError n m) = n"

text \<open>
  What a call that returns a promise can do: throw before any promise exists
  (\<open>Thrown\<close>), return a promise that is later rejected (\<open>Rejected\<close>), or return a promise
  that is later fulfilled (\<open>Resolved\<close>). A \<open>.catch\<close> handler sees only \<open>Rejected\<close>.
\<close>

datatype 'a outcome = Thrown js_error | Rejected js_error | Resolved 'a

text \<open>Bytes, and a Node \<open>Buffer\<close> as the sequence of its bytes.\<close>

type_synonym byte = "8 word"
type_synonym buffer = "byte list"

text \<open>
  A value produced by \<open>JSON.parse\<close>. Numbers are kept abstract (type \<open>'n\<close>): the code
  looks at them only through truthiness and conversion to a string, given by
  \<open>number_ops\<close>. An object is the list of its properties, each key once.
\<close>

datatype 'n json =
    JNull
  | JBool bool
  | JNumber 'n
  | JString string
  | JArray "'n json list"
  | JObject "(string \<times> 'n json) list"

record 'n number_ops =
  isZero :: "'n \<Rightarrow> bool"
  numberToString :: "'n \<Rightarrow> string"

fun truthy :: "'n number_ops \<Rightarrow> 'n json \<Rightarrow> bool" where
  "truthy ops JNull = False"
| "truthy ops (JBool b) = b"
| "truthy ops (JNumber n) = (\<not> isZero ops n)"
| "truthy ops (JString s) = (s \<noteq> [])"
| "truthy ops (JArray xs) = True"
| "truthy ops (JObject kvs) = True"

fun join_comma :: "string list \<Rightarrow> string" where
  "join_comma [] = []"
| "join_comma [x] = x"
| "join_comma (x # y # ys) = x @ '','' @ join_comma (y # ys)"

text \<open>
  \<open>String(v)\<close>. An array joins the texts of its elements with commas, \<open>null\<close> elements
  as the empty string. An object gives \<open>[object Object]\<close>, unless it has a property named
  \<open>toString\<close> of its own: a parsed value is never a function, so the conversion then finds
  no usable method and throws a \<open>TypeError\<close>. The first element that throws ends the join.
\<close>

fun first_error :: "(js_error + string) list \<Rightarrow> js_error + string list" where
  "first_error [] = Inr []"
| "first_error (Inl e # rs) = Inl e"
| "first_error (Inr x # rs) = (case first_error rs of Inl e \<Rightarrow> Inl e | Inr xs \<Rightarrow> Inr (x # xs))"

fun js_toString :: "'n number_ops \<Rightarrow> 'n json \<Rightarrow> js_error + string" where
  "js_toString ops JNull = Inr ''null''"
| "js_toString ops (JBool b) = Inr (if b then ''true'' else ''false'')"
| "js_toString ops (JNumber n) = Inr (numberToString ops n)"
| "js_toString ops (JString s) = Inr s"
| "js_toString ops (JArray xs) =
     (case first_error (map (\<lambda>x. if x = JNull then Inr [] else js_toString ops x) xs) of
        Inl e \<Rightarrow> Inl e
      | Inr texts \<Rightarrow> Inr (join_comma texts))"
| "js_toString ops (JObject kvs) =
     (if map_of kvs ''toString'' = None then Inr ''[object Object]''
      else Inl (TypeError ''Cannot convert object to primitive value''))"

fun show_nat :: "nat \<Rightarrow> string" where
  "show_nat n =
     (if n < 10 then [''0123456789'' ! n]
      else show_nat (n div 10) @ [''0123456789'' ! (n mod 10)])"

declare show_nat.simps [simp del]

text \<open>
  \<open>v[i]\<close> for a parsed value \<open>v\<close> and a literal index \<open>i\<close>: \<open>None\<close> is \<open>undefined\<close>.
  Reading a property of \<open>null\<close> throws a \<open>TypeError\<close> (its message differs between engines).
\<close>

fun js_index :: "'n json \<Rightarrow> nat \<Rightarrow> js_error + 'n json option" where
  "js_index JNull i = Inl (TypeError ''Cannot read properties of null'')"
| "js_index (JBool b) i = Inr None"
| "js_index (JNumber n) i = Inr None"
| "js_index (JString s) i = Inr (if i < length s then Some (JString [s ! i]) else None)"
| "js_index (JArray xs) i = Inr (if i < length xs then Some (xs ! i) else None)"
| "js_index (JObject kvs) i = Inr (map_of kvs (show_nat i))"

subsection \<open>Numbers and parseInt\<close>

text \<open>
  The numbers that \<open>parseInt\<close> can give: \<open>NaN\<close>, the two infinities, negative zero, and
  \<open>Num n\<close> for the double whose value is the integer \<open>n\<close> (\<open>Num 0\<close> is positive zero).
\<close>

datatype js_number = NaN | PosInfinity | NegInfinity | NegZero | Num int

text \<open>\<open>Number.isFinite(x)\<close>, and \<open>x >= k\<close> for an integer literal \<open>k\<close>.\<close>

fun Number_isFinite :: "js_number \<Rightarrow> bool" where
  "Number_isFinite NaN = False"
| "Number_isFinite PosInfinity = False"
| "Number_isFinite NegInfinity = False"
| "Number_isFinite NegZero = True"
| "Number_isFinite (Num n) = True"

fun js_ge :: "js_number \<Rightarrow> int \<Rightarrow> bool" where
  "js_ge NaN k = False"
| "js_ge PosInfinity k = True"
| "js_ge NegInfinity k = False"
| "js_ge NegZero k = (0 \<ge> k)"
| "js_ge (Num n) k = (n \<ge> k)"

text \<open>
  The double nearest to a natural number, ties to the even significand; \<open>None\<close> when
  it is \<open>Infinity\<close>. Below \<open>2 ^ 53\<close> every integer is a double.
\<close>

fun bit_length :: "nat \<Rightarrow> nat" where
  "bit_length n = (if n = 0 then 0 else Suc (bit_length (n div 2)))"

declare bit_length.simps [simp del]

definition round_to_double :: "nat \<Rightarrow> nat option" where
  "round_to_double n =
     (if n < 2 ^ 53 then Some n
      else
        let k = bit_length n - 53;
            q = n div 2 ^ k;
            r = n mod 2 ^ k;
            half = 2 ^ (k - 1);
            q' = (if r > half \<or> (r = half \<and> odd q) then q + 1 else q);
            v = q' * 2 ^ k
        in if v \<ge> 2 ^ 1024 then None else Some v)"

definition signed_number :: "int \<Rightarrow> nat \<Rightarrow> js_number" where
  "signed_number sign m =
     (if m = 0 then (if sign < 0 then NegZero else Num 0)
      else case round_to_double m of
             None \<Rightarrow> (if sign < 0 then NegInfinity else PosInfinity)
           | Some d \<Rightarrow> Num (sign * int d))"

text \<open>
  \<open>parseInt\<close> skips leading white space, reads an optional sign, then the longest run of
  digits of the radix; no digit gives \<open>NaN\<close>. Without a radix argument the radix is 10, or
  16 after a \<open>0x\<close>/\<open>0X\<close> prefix. The digits are read exactly and the value is rounded once
  to the nearest double. A character here is a code unit below 256, so of JavaScript's white
  space the strings can hold tab, LF, VT, FF, CR, space and the no-break space U+00A0.
\<close>

definition is_whitespace :: "char \<Rightarrow> bool" where
  "is_whitespace c = ((of_char c :: nat) \<in> {9, 10, 11, 12, 13, 32, 160})"

definition digit_value :: "char \<Rightarrow> nat option" where
  "digit_value c =
     (let n = (of_char c :: nat) in
      if 48 \<le> n \<and> n \<le> 57 then Some (n - 48)
      else if 97 \<le> n \<and> n \<le> 122 then Some (n - 87)
      else if 65 \<le> n \<and> n \<le> 90 then Some (n - 55)
      else None)"

definition is_digit_of :: "nat \<Rightarrow> char \<Rightarrow> bool" where
  "is_digit_of radix c = (case digit_value c of None \<Rightarrow> False | Some d \<Rightarrow> d < radix)"

definition digits_value :: "nat \<Rightarrow> string \<Rightarrow> nat" where
  "digits_value radix ds =
     foldl (\<lambda>acc c. acc * radix + (case digit_value c of None \<Rightarrow> 0 | Some d \<Rightarrow> d)) 0 ds"

definition parse_digits :: "nat \<Rightarrow> int \<Rightarrow> string \<Rightarrow> js_number" where
  "parse_digits radix sign s =
     (let z = takeWhile (is_digit_of radix) s
      in if z = [] then NaN else signed_number sign (digits_value radix z))"

definition strip_sign :: "string \<Rightarrow> int \<times> string" where
  "strip_sign s =
     (case s of
        [] \<Rightarrow> (1, [])
      | c # cs \<Rightarrow> if c = CHR ''-'' then (-1, cs) else if c = CHR ''+'' then (1, cs) else (1, s))"

definition parseInt_radix10 :: "string \<Rightarrow> js_number" where
  "parseInt_radix10 str =
     (case strip_sign (dropWhile is_whitespace str) of (sign, s) \<Rightarrow> parse_digits 10 sign s)"

definition parseInt :: "string \<Rightarrow> js_number" where
  "parseInt str =
     (case strip_sign (dropWhile is_whitespace str) of (sign, s) \<Rightarrow>
        if take 2 s = ''0x'' \<or> take 2 s = ''0X'' then parse_digits 16 sign (drop 2 s)
        else parse_digits 10 sign s)"


section \<open>The client: issuing bearer tokens (wire.js)\<close>

text \<open>
  The libraries \<open>wire.js\<close> imports, as parameters. A function that can throw returns a
  sum. \<open>hexStringToECPair\<close> gives the signer (named by its key), \<open>sign_DER_hex s d\<close> is
  \<open>s.sign(d).toDER().toString('hex')\<close>, \<open>stringify_object\<close> is \<open>JSON.stringify\<close> of an
  object whose properties are strings, \<open>base64\<close> is \<open>Buffer.from(s).toString('base64')\<close>,
  \<open>randomBytes16_hex\<close> is the salt that \<open>crypto.randomBytes(16).toString('hex')\<close> draws and
  \<open>now_ms\<close> the clock reading of \<open>new Date()\<close>, in milliseconds.
\<close>

record v1_payload =
  gaiaChallenge :: string
  iss :: string
  exp :: rat
  associationToken :: "string option"
  hubUrl :: "string option"
  salt :: string

record 'n wire_lib =
  JSON_parse :: "string \<Rightarrow> 'n json option"
  hexStringToECPair :: "string \<Rightarrow> js_error + string"
  sha256 :: "string \<Rightarrow> string"
  sign_DER_hex :: "string \<Rightarrow> string \<Rightarrow> string"
  getPublicKeyFromPrivate :: "string \<Rightarrow> js_error + string"
  stringify_object :: "(string \<times> string) list \<Rightarrow> string"
  base64 :: "string \<Rightarrow> string"
  randomBytes16_hex :: string
  now_ms :: int
  TokenSigner_sign :: "string \<Rightarrow> v1_payload \<Rightarrow> js_error + string"

definition FOUR_MONTH_SECONDS :: int where
  "FOUR_MONTH_SECONDS = 60 * 60 * 24 * 31 * 4"

text \<open>
  The test \<open>parsedChallenge[0] === 'gaiahub' && parsedChallenge[3] === 'blockstack_storage_please_sign'\<close>;
  the second operand is evaluated only when the first is true.
\<close>

definition is_legacy_challenge :: "'n json \<Rightarrow> js_error + bool" where
  "is_legacy_challenge parsedChallenge =
     (case js_index parsedChallenge 0 of
        Inl e \<Rightarrow> Inl e
      | Inr first \<Rightarrow>
          if first = Some (JString ''gaiahub'')
          then (case js_index parsedChallenge 3 of
                  Inl e \<Rightarrow> Inl e
                | Inr fourth \<Rightarrow> Inr (fourth = Some (JString ''blockstack_storage_please_sign'')))
          else Inr False)"

definition makeLegacyAuthToken :: "'n wire_lib \<Rightarrow> string \<Rightarrow> string \<Rightarrow> js_error + string" where
  "makeLegacyAuthToken lib challengeText secretKey0 =
     (let secretKey = take 64 secretKey0 in
      case JSON_parse lib challengeText of
        None \<Rightarrow> Inl (Error ''Failed in parsing legacy challenge text from the gaia hub.'')
      | Some parsedChallenge \<Rightarrow>
          (case is_legacy_challenge parsedChallenge of
             Inl e \<Rightarrow> Inl e
           | Inr True \<Rightarrow>
               (case hexStringToECPair lib (secretKey @ ''01'') of
                  Inl e \<Rightarrow> Inl e
                | Inr signer \<Rightarrow>
                    let digest = sha256 lib challengeText;
                        signature = sign_DER_hex lib signer digest
                    in (case getPublicKeyFromPrivate lib secretKey of
                          Inl e \<Rightarrow> Inl e
                        | Inr publickey \<Rightarrow>
                            Inr (base64 lib (stringify_object lib
                                   [(''publickey'', publickey), (''signature'', signature)]))))
           | Inr False \<Rightarrow>
               Inl (Error ''Failed to connect to legacy gaia hub. If you operate this hub, please update.'')))"

definition makeV1AuthToken ::
  "'n wire_lib \<Rightarrow> string \<Rightarrow> string \<Rightarrow> string option \<Rightarrow> string option \<Rightarrow> js_error + string" where
  "makeV1AuthToken lib secretKey0 challengeText associationToken' hubUrl' =
     (let secretKey = take 64 secretKey0 in
      case getPublicKeyFromPrivate lib secretKey of
        Inl e \<Rightarrow> Inl e
      | Inr publicKeyHex \<Rightarrow>
          let payload = \<lparr> gaiaChallenge = challengeText,
                          iss = publicKeyHex,
                          exp = of_int FOUR_MONTH_SECONDS + of_int (now_ms lib) / 1000,
                          associationToken = associationToken',
                          hubUrl = hubUrl',
                          salt = randomBytes16_hex lib \<rparr>
          in (case TokenSigner_sign lib secretKey payload of
                Inl e \<Rightarrow> Inl e
              | Inr token \<Rightarrow> Inr (''v1:'' @ token)))"

record hub_info =
  challenge_text :: string
  latest_auth_version :: "string option"
  read_url_prefix :: string

text \<open>
  \<open>hubInfo.latest_auth_version && parseInt(hubInfo.latest_auth_version.slice(1), 10) >= 1\<close>:
  an absent or empty version string is falsy; a comparison with \<open>NaN\<close> is false.
\<close>

definition handlesV1Auth :: "hub_info \<Rightarrow> bool" where
  "handlesV1Auth hubInfo =
     (case latest_auth_version hubInfo of
        None \<Rightarrow> False
      | Some v \<Rightarrow>
          v \<noteq> [] \<and> js_ge (parseInt_radix10 (drop 1 v)) 1)"

definition makeAuthToken ::
  "'n wire_lib \<Rightarrow> hub_info \<Rightarrow> string \<Rightarrow> string \<Rightarrow> string option \<Rightarrow> js_error + string" where
  "makeAuthToken lib hubInfo signerKeyHex hubUrl' associationToken' =
     (let challengeText = challenge_text hubInfo in
      if \<not> handlesV1Auth hubInfo
      then makeLegacyAuthToken lib challengeText signerKeyHex
      else makeV1AuthToken lib signerKeyHex challengeText associationToken' (Some hubUrl'))"


section \<open>The hub: request pipeline (server.js)\<close>

text \<open>A readable stream is named by the bytes it delivers.\<close>

type_synonym readable = "byte list"

record request_headers =
  content_type :: "string option"
  content_length :: "string option"
  authorization :: string

record write_command =
  storageTopLevel :: string
  path :: string
  stream :: readable
  contentType :: string
  contentLength :: js_number

record list_result =
  entries :: "string list"
  page :: "string option"

text \<open>
  The collaborators of the server. A driver has a fixed read-URL prefix and two operations
  that return promises; the proof checker has one.
\<close>

record driver_model =
  driver_getReadURLPrefix :: string
  performWrite :: "write_command \<Rightarrow> string outcome"
  listFiles :: "string \<Rightarrow> string option \<Rightarrow> list_result outcome"

record proof_checker =
  checkProofs :: "string \<Rightarrow> string \<Rightarrow> string \<Rightarrow> unit outcome"

record auth_scope =
  scope :: string
  domain :: string

text \<open>
  The authentication module the server imports, as parameters. Both functions return
  their value directly and report failure by throwing.
  \<open>validateAuthorizationHeader header serverName address requireCorrectHubUrl validHubUrls blacklist\<close>
  gives the signing address.
\<close>

record authentication =
  validateAuthorizationHeader ::
    "string \<Rightarrow> string \<Rightarrow> string \<Rightarrow> bool \<Rightarrow> string list option \<Rightarrow> string list \<Rightarrow> js_error + string"
  getAuthenticationScopes :: "string \<Rightarrow> js_error + auth_scope list"

text \<open>
  The fields of \<open>HubServer\<close>. \<open>whitelist\<close> and \<open>readURL\<close> are \<open>None\<close> when the
  configuration leaves them \<open>null\<close>; \<open>blacklist\<close> lists the keys of the map.
\<close>

record hub_server =
  driver :: driver_model
  proofChecker :: proof_checker
  whitelist :: "string list option"
  blacklist :: "string list"
  serverName :: string
  readURL :: "string option"
  requireCorrectHubUrl :: bool
  validHubUrls :: "string list option"

definition validate :: "authentication \<Rightarrow> hub_server \<Rightarrow> string \<Rightarrow> request_headers \<Rightarrow> js_error + unit" where
  "validate au srv address requestHeaders =
     (case validateAuthorizationHeader au (authorization requestHeaders) (serverName srv) address
             (requireCorrectHubUrl srv) (validHubUrls srv) (blacklist srv) of
        Inl e \<Rightarrow> Inl e
      | Inr signingAddress \<Rightarrow>
          (case whitelist srv of
             None \<Rightarrow> Inr ()
           | Some wl \<Rightarrow>
               if \<not> (signingAddress \<in> set wl)
               then Inl (ValidationError (''Address '' @ signingAddress @ '' not authorized for writes''))
               else Inr ()))"

definition handleListFiles ::
  "authentication \<Rightarrow> hub_server \<Rightarrow> string \<Rightarrow> string option \<Rightarrow> request_headers \<Rightarrow> list_result outcome" where
  "handleListFiles au srv address page' requestHeaders =
     (case validate au srv address requestHeaders of
        Inl e \<Rightarrow> Thrown e
      | Inr _ \<Rightarrow> listFiles (driver srv) address page')"

text \<open>\<open>if (this.readURL)\<close>: an empty string is falsy, as \<open>null\<close> is.\<close>

definition getReadURLPrefix :: "hub_server \<Rightarrow> string" where
  "getReadURLPrefix srv =
     (case readURL srv of
        None \<Rightarrow> driver_getReadURLPrefix (driver srv)
      | Some r \<Rightarrow> if r \<noteq> [] then r else driver_getReadURLPrefix (driver srv))"

text \<open>The loop over the scopes, which collects \<open>writePrefixes\<close> and \<open>writePaths\<close>.\<close>

fun collectScopes :: "auth_scope list \<Rightarrow> string list \<times> string list" where
  "collectScopes [] = ([], [])"
| "collectScopes (s # ss) =
     (case collectScopes ss of (writePrefixes, writePaths) \<Rightarrow>
        if scope s = ''putFilePrefix'' then (domain s # writePrefixes, writePaths)
        else if scope s = ''putFile'' then (writePrefixes, domain s # writePaths)
        else (writePrefixes, writePaths))"

text \<open>
  \<open>!!xs.find(p)\<close>: \<open>find\<close> gives the first element that satisfies \<open>p\<close>, or \<open>undefined\<close>;
  \<open>!!\<close> of \<open>undefined\<close> and of the empty string is false.
\<close>

definition found_truthy :: "(string \<Rightarrow> bool) \<Rightarrow> string list \<Rightarrow> bool" where
  "found_truthy p xs = (case find p xs of None \<Rightarrow> False | Some x \<Rightarrow> x \<noteq> [])"

text \<open>
  The scope check of \<open>handleRequest\<close>: true when the request may go on, false when
  the \<open>ValidationError\<close> is thrown.
\<close>

definition scopesAllowWrite :: "string \<Rightarrow> auth_scope list \<Rightarrow> bool" where
  "scopesAllowWrite path' scopes =
     (case collectScopes scopes of (writePrefixes, writePaths) \<Rightarrow>
        if length writePrefixes > 0 \<or> length writePaths > 0
        then (let match = found_truthy (\<lambda>p. prefix p path') writePrefixes;
                  match = (if \<not> match then found_truthy (\<lambda>p. path' = p) writePaths else match)
              in match)
        else True)"

text \<open>
  The path decision as the specification words it, for comparison with
  \<open>scopesAllowWrite\<close>: an empty list allows every path; otherwise the path must start with
  the domain of some \<open>putFilePrefix\<close> scope or equal the domain of some \<open>putFile\<close> scope.
\<close>

definition spec_authorizePathForWrite :: "string \<Rightarrow> auth_scope list \<Rightarrow> bool" where
  "spec_authorizePathForWrite path' scopes =
     (scopes = [] \<or>
      list_ex (\<lambda>s. (scope s = ''putFilePrefix'' \<and> prefix (domain s) path')
                 \<or> (scope s = ''putFile'' \<and> path' = domain s)) scopes)"

text \<open>
  The last step of the promise chain: the driver's URL with the driver's prefix replaced
  by the server's.
\<close>

definition rewriteReadURL :: "hub_server \<Rightarrow> string \<Rightarrow> string" where
  "rewriteReadURL srv readURL' =
     (let driverPrefix = driver_getReadURLPrefix (driver srv);
          readURLPrefix = getReadURLPrefix srv
      in if readURLPrefix \<noteq> driverPrefix \<and> prefix driverPrefix readURL'
         then (let postFix = drop (length driverPrefix) readURL' in readURLPrefix @ postFix)
         else readURL')"

text \<open>
  \<open>handleRequest\<close> returns what the caller gets together with the log of the steps it
  started, in order: the two calls into the authentication module, the call of the proof
  checker and of the driver with their arguments, and the run of the URL-rewriting callback.
  An exception of \<open>performWrite\<close> inside the \<open>then\<close> callback rejects the promise.
\<close>

datatype event =
    CallValidate
  | CallGetAuthenticationScopes
  | CallCheckProofs string string string
  | CallPerformWrite write_command
  | RunUrlRewrite string

definition handleRequest ::
  "authentication \<Rightarrow> hub_server \<Rightarrow> string \<Rightarrow> string \<Rightarrow> request_headers \<Rightarrow> readable
     \<Rightarrow> event list \<times> string outcome" where
  "handleRequest au srv address path' requestHeaders stream' =
     (case validate au srv address requestHeaders of
        Inl e \<Rightarrow> ([CallValidate], Thrown e)
      | Inr _ \<Rightarrow>
          let contentType' = (case content_type requestHeaders of
                                None \<Rightarrow> ''application/octet-stream''
                              | Some c \<Rightarrow> c)
          in (case getAuthenticationScopes au (authorization requestHeaders) of
                Inl e \<Rightarrow> ([CallValidate, CallGetAuthenticationScopes], Thrown e)
              | Inr scopes \<Rightarrow>
                  if \<not> scopesAllowWrite path' scopes
                  then ([CallValidate, CallGetAuthenticationScopes],
                        Thrown (ValidationError (''Address '' @ address @ '' not authorized to write to ''
                                                 @ path' @ '' by scopes'')))
                  else
                    let writeCommand = \<lparr> storageTopLevel = address,
                                           path = path',
                                           stream = stream',
                                           contentType = contentType',
                                           contentLength = (case content_length requestHeaders of
                                                              None \<Rightarrow> NaN
                                                            | Some l \<Rightarrow> parseInt l) \<rparr>;
                        readURLPrefix = getReadURLPrefix srv;
                        log3 = [CallValidate, CallGetAuthenticationScopes,
                                CallCheckProofs address path' readURLPrefix]
                    in (case checkProofs (proofChecker srv) address path' readURLPrefix of
                          Thrown e \<Rightarrow> (log3, Thrown e)
                        | Rejected e \<Rightarrow> (log3, Rejected e)
                        | Resolved _ \<Rightarrow>
                            (case performWrite (driver srv) writeCommand of
                               Thrown e \<Rightarrow> (log3 @ [CallPerformWrite writeCommand], Rejected e)
                             | Rejected e \<Rightarrow> (log3 @ [CallPerformWrite writeCommand], Rejected e)
                             | Resolved readURL' \<Rightarrow>
                                 (log3 @ [CallPerformWrite writeCommand, RunUrlRewrite readURL'],
                                  Resolved (rewriteReadURL srv readURL'))))))"


section \<open>The hub: HTTP routes (http.js)\<close>

text \<open>
  A request as the routes read it: the two groups captured by the route's regular
  expression, the headers, the body that \<open>express.json()\<close> parsed (\<open>None\<close> when there is
  none) and the byte stream of the request itself.
\<close>

record 'n http_request =
  param0 :: string
  param1 :: string
  headers :: request_headers
  body :: "'n json option"
  incoming :: readable

text \<open>
  What a route handler does with a request: it answers through \<open>writeResponse\<close> with a
  status code and a JSON object of string properties, or an exception leaves the handler
  (\<open>Escaped\<close>) and no \<open>writeResponse\<close> of the route runs.
\<close>

datatype reply = Responded nat "(string \<times> string) list" | Escaped js_error

definition store_route ::
  "authentication \<Rightarrow> hub_server \<Rightarrow> 'n http_request \<Rightarrow> event list \<times> reply" where
  "store_route au srv req =
     (let filename = (if param1 req \<noteq> [] \<and> last (param1 req) = CHR ''/''
                      then butlast (param1 req) else param1 req);
          address = param0 req
      in case handleRequest au srv address filename (headers req) (incoming req) of
           (steps, Thrown e) \<Rightarrow> (steps, Escaped e)
         | (steps, Resolved publicURL) \<Rightarrow> (steps, Responded 202 [(''publicURL'', publicURL)])
         | (steps, Rejected err) \<Rightarrow>
             (steps,
              case err of
                ValidationError m \<Rightarrow>
                  Responded 401 [(''message'', err_message err), (''error'', err_name err)]
              | AuthTokenTimestampValidationError m \<Rightarrow>
                  Responded 401 [(''message'', err_message err), (''error'', err_name err)]
              | BadPathError m \<Rightarrow>
                  Responded 403 [(''message'', err_message err), (''error'', err_name err)]
              | NotEnoughProofError m \<Rightarrow>
                  Responded 402 [(''message'', err_message err), (''error'', err_name err)]
              | _ \<Rightarrow> Responded 500 [(''message'', ''Server Error'')]))"

text \<open>
  \<open>req.headers['content-length'] > 4096\<close>. A Content-Length header is a run of decimal
  digits, compared by its value; an absent header compares false. The other spellings of
  a number that JavaScript would read (hexadecimal, exponent, surrounding blanks) do not
  occur in this header and compare false here.
\<close>

definition header_exceeds :: "string option \<Rightarrow> nat \<Rightarrow> bool" where
  "header_exceeds h bound =
     (case h of
        None \<Rightarrow> False
      | Some s \<Rightarrow> s \<noteq> [] \<and> list_all (is_digit_of 10) s \<and> digits_value 10 s > bound)"

text \<open>\<open>v.name\<close> for a name that is neither an index nor \<open>length\<close>: only an object has it.\<close>

fun js_property :: "'n json \<Rightarrow> string \<Rightarrow> 'n json option" where
  "js_property (JObject kvs) name = map_of kvs name"
| "js_property v name = None"

text \<open>
  The revoke-all route. \<open>handleAuthBump\<close> is the server operation it calls; the result
  lists the calls of it that the route made, with the address and the timestamp passed.
  \<open>parseInt\<close> first converts its argument to a string, which can throw.
\<close>

definition revoke_all_route ::
  "'n number_ops \<Rightarrow> (string \<Rightarrow> js_number \<Rightarrow> request_headers \<Rightarrow> unit outcome) \<Rightarrow> 'n http_request
     \<Rightarrow> (string \<times> js_number) list \<times> reply" where
  "revoke_all_route ops handleAuthBump req =
     (if header_exceeds (content_length (headers req)) 4096
      then ([], Responded 400 [(''message'', ''Invalid JSON: too long'')])
      else
        case (case body req of
                None \<Rightarrow> None
              | Some b \<Rightarrow> if truthy ops b then js_property b ''oldestValidTimestamp'' else None) of
          None \<Rightarrow> ([], Responded 400 [(''message'', ''Invalid JSON: missing oldestValidTimestamp'')])
        | Some v \<Rightarrow>
            if \<not> truthy ops v
            then ([], Responded 400 [(''message'', ''Invalid JSON: missing oldestValidTimestamp'')])
            else
              let address = param0 req
              in (case js_toString ops v of
                    Inl e \<Rightarrow> ([], Escaped e)
                  | Inr text \<Rightarrow>
                      let oldestValidTimestamp = parseInt text
                      in if \<not> Number_isFinite oldestValidTimestamp
                         then ([], Responded 400
                                     [(''message'',
                                       ''Invalid JSON: oldestValidTimestamp is not a valid integer'')])
                         else
                           ([(address, oldestValidTimestamp)],
                            case handleAuthBump address oldestValidTimestamp (headers req) of
                              Thrown e \<Rightarrow> Escaped e
                            | Resolved _ \<Rightarrow> Responded 202 [(''status'', ''success'')]
                            | Rejected err \<Rightarrow>
                                (case err of
                                   ValidationError m \<Rightarrow>
                                     Responded 401 [(''message'', err_message err),
                                                    (''error'', err_name err)]
                                 | BadPathError m \<Rightarrow>
                                     Responded 403 [(''message'', err_message err),
                                                    (''error'', err_name err)]
                                 | _ \<Rightarrow> Responded 500 [(''message'', ''Server Error'')]))))"


section \<open>Constant-time buffer comparison (encryption helpers)\<close>

text \<open>
  Reading \<open>b[i]\<close> of a buffer gives the byte as a number;
  past the end it gives \<open>undefined\<close>, which the bitwise operators read as 0. The bitwise
  operators of JavaScript work on 32-bit integers.
\<close>

definition buffer_at :: "buffer \<Rightarrow> nat \<Rightarrow> 32 word" where
  "buffer_at b i = (if i < length b then ucast (b ! i) else 0)"

text \<open>
  The loop of \<open>equalConstTime\<close>:
  \<^verbatim>\<open>for (let i = 0; i < b1.length; i++) { res |= b1[i] ^ b2[i] }\<close>
\<close>

function equalConstTime_loop :: "buffer \<Rightarrow> buffer \<Rightarrow> nat \<Rightarrow> 32 word \<Rightarrow> 32 word" where
  "equalConstTime_loop b1 b2 i res =
     (if i < length b1
      then equalConstTime_loop b1 b2 (i + 1) (res OR (buffer_at b1 i XOR buffer_at b2 i))
      else res)"
  by pat_completeness auto
termination
  by (relation "measure (\<lambda>(b1, b2, i, res). length b1 - i)") auto

declare equalConstTime_loop.simps [simp del]

definition equalConstTime :: "buffer \<Rightarrow> buffer \<Rightarrow> bool" where
  "equalConstTime b1 b2 =
     (if length b1 \<noteq> length b2 then False
      else equalConstTime_loop b1 b2 0 0 = 0)"

section \<open>Example configurations\<close>

text \<open>
  A small hub used to evaluate the model on concrete requests: the bearer token is the
  signing address itself, the scopes of every token are the given list, the proof checker
  refuses the path \<open>unproven\<close>, and the driver refuses the path \<open>..\<close> and otherwise stores
  under \<open>http://driver/\<close>.
\<close>

definition demo_authentication :: "auth_scope list \<Rightarrow> authentication" where
  "demo_authentication scopes =
     \<lparr> validateAuthorizationHeader =
         (\<lambda>header name address requireUrl validUrls blacklisted.
            if header = [] then Inl (ValidationError ''Failed to validate with challenge text'')
            else Inr header),
       getAuthenticationScopes = (\<lambda>header. Inr scopes) \<rparr>"

definition demo_driver :: driver_model where
  "demo_driver =
     \<lparr> driver_getReadURLPrefix = ''http://driver/'',
       performWrite =
         (\<lambda>cmd. if path cmd = ''..'' then Rejected (BadPathError ''Invalid Path'')
                else Resolved (''http://driver/'' @ storageTopLevel cmd @ ''/'' @ path cmd)),
       listFiles = (\<lambda>address page'. Resolved \<lparr> entries = [], page = None \<rparr>) \<rparr>"

definition demo_proofChecker :: proof_checker where
  "demo_proofChecker =
     \<lparr> checkProofs =
         (\<lambda>address path' prefix'.
            if path' = ''unproven'' then Rejected (NotEnoughProofError ''Not enough social proofs'')
            else Resolved ()) \<rparr>"

definition demo_server :: "string list option \<Rightarrow> string option \<Rightarrow> hub_server" where
  "demo_server wl url =
     \<lparr> driver = demo_driver,
       proofChecker = demo_proofChecker,
       whitelist = wl,
       blacklist = [],
       serverName = ''gaia-0'',
       readURL = url,
       requireCorrectHubUrl = False,
       validHubUrls = None \<rparr>"

definition demo_headers :: "string \<Rightarrow> string option \<Rightarrow> request_headers" where
  "demo_headers token ctype =
     \<lparr> content_type = ctype, content_length = Some ''4'', authorization = token \<rparr>"


text \<open>
  Three JSON numbers with the texts that \<open>String\<close> gives for them.
\<close>

datatype sample_number = Minus_five | Zero | Timestamp_1600000000

fun sample_toString :: "sample_number \<Rightarrow> string" where
  "sample_toString Minus_five = ''-5''"
| "sample_toString Zero = ''0''"
| "sample_toString Timestamp_1600000000 = ''1600000000''"

definition sample_number_ops :: "sample_number number_ops" where
  "sample_number_ops = \<lparr> isZero = (\<lambda>n. n = Zero), numberToString = sample_toString \<rparr>"

text \<open>
  Challenge texts for the client, and a library for it: \<open>JSON_parse\<close> gives what
  \<open>JSON.parse\<close> gives on each of these texts and fails on any other text (the one
  used below, \<open>not json\<close>, is indeed no JSON); the cryptographic functions are symbolic.
\<close>

definition legacy_challenge :: string where
  \<open>legacy_challenge = ''["gaiahub","0","gaia-0","blockstack_storage_please_sign"]''\<close>

definition long_challenge :: string where
  \<open>long_challenge = ''["gaiahub","0","gaia-0","blockstack_storage_please_sign","more"]''\<close>

definition other_challenge :: string where
  \<open>other_challenge = ''["gaiahub","0","gaia-0","please_sign"]''\<close>

definition demo_parse :: "string \<Rightarrow> sample_number json option" where
  "demo_parse text =
     (if text = legacy_challenge
      then Some (JArray [JString ''gaiahub'', JString ''0'', JString ''gaia-0'',
                         JString ''blockstack_storage_please_sign''])
      else if text = long_challenge
      then Some (JArray [JString ''gaiahub'', JString ''0'', JString ''gaia-0'',
                         JString ''blockstack_storage_please_sign'', JString ''more''])
      else if text = other_challenge
      then Some (JArray [JString ''gaiahub'', JString ''0'', JString ''gaia-0'',
                         JString ''please_sign''])
      else None)"

definition demo_wire_lib :: "sample_number wire_lib" where
  "demo_wire_lib =
     \<lparr> JSON_parse = demo_parse,
       hexStringToECPair = (\<lambda>k. Inr k),
       sha256 = (\<lambda>m. ''sha256('' @ m @ '')''),
       sign_DER_hex = (\<lambda>signer digest. ''sig'' ),
       getPublicKeyFromPrivate = (\<lambda>k. Inr (''pub('' @ k @ '')'')),
       stringify_object = (\<lambda>kvs. concat (map (\<lambda>(k, v). k @ ''='' @ v @ '';'') kvs)),
       base64 = (\<lambda>m. ''base64('' @ m @ '')''),
       randomBytes16_hex = ''000102030405060708090a0b0c0d0e0f'',
       now_ms = 0,
       TokenSigner_sign = (\<lambda>k payload. Inr (''jwt('' @ gaiaChallenge payload @ '')'')) \<rparr>"

definition demo_hub_info :: "string option \<Rightarrow> hub_info" where
  "demo_hub_info version =
     \<lparr> challenge_text = legacy_challenge,
       latest_auth_version = version,
       read_url_prefix = ''http://driver/'' \<rparr>"


text \<open>A revoke operation that always succeeds, and requests for the routes.\<close>

definition demo_handleAuthBump :: "string \<Rightarrow> js_number \<Rightarrow> request_headers \<Rightarrow> unit outcome" where
  "demo_handleAuthBump address timestamp hdrs = Resolved ()"

definition demo_request ::
  "string \<Rightarrow> string \<Rightarrow> sample_number json option \<Rightarrow> sample_number http_request" where
  "demo_request address file json =
     \<lparr> param0 = address, param1 = file, headers = demo_headers address None,
       body = json, incoming = [] \<rparr>"

section \<open>Properties\<close>

lemmas parseInt_defs = parseInt_def parseInt_radix10_def strip_sign_def parse_digits_def
  is_whitespace_def is_digit_of_def digit_value_def digits_value_def signed_number_def
  round_to_double_def

lemmas demo_defs = demo_authentication_def demo_server_def demo_headers_def
  demo_proofChecker_def demo_driver_def

lemmas wire_demo_defs = demo_wire_lib_def demo_parse_def legacy_challenge_def long_challenge_def
  other_challenge_def demo_hub_info_def

lemmas route_defs = revoke_all_route_def header_exceeds_def demo_request_def demo_headers_def
  sample_number_ops_def demo_handleAuthBump_def

lemmas handleRequest_defs = handleRequest_def validate_def scopesAllowWrite_def found_truthy_def
  getReadURLPrefix_def rewriteReadURL_def

subsection \<open>Reading numbers\<close>

text \<open>
  \<open>parseInt\<close> on some texts: a trailing unit is ignored, a hexadecimal prefix is read only
  without a radix, a leading no-break space is skipped, and a value above \<open>2 ^ 53\<close> is
  rounded to the nearest double.
\<close>

lemma parseInt_examples:
  "parseInt ''42'' = Num 42"
  "parseInt ''  -42px'' = Num (- 42)"
  "parseInt ''0x1F'' = Num 31"
  "parseInt ''-0'' = NegZero"
  "parseInt ''soon'' = NaN"
  "parseInt [CHR 0xA0, CHR ''4'', CHR ''2''] = Num 42"
  "parseInt_radix10 [CHR 0xA0, CHR ''1''] = Num 1"
  "parseInt_radix10 ''0x1F'' = Num 0"
  "parseInt_radix10 [] = NaN"
  by (simp_all add: parseInt_defs)

lemma bit_length_54: "bit_length 9007199254740993 = 54"
  by (simp add: bit_length.simps)

lemma parseInt_rounds_to_double:
  "parseInt ''9007199254740993'' = Num 9007199254740992"
  by (simp add: parseInt_defs bit_length_54 Let_def)

subsection \<open>Constant-time comparison\<close>

lemma xor_word_zero_iff: "(x::32 word) XOR y = 0 \<longleftrightarrow> x = y"
  by (metis bit.xor_left_self xor.right_neutral)

lemma ucast_byte_inj: "(ucast (a::byte) :: 32 word) = ucast (b::byte) \<longleftrightarrow> a = b"
proof
  assume h: "(ucast a :: 32 word) = ucast b"
  have "ucast (ucast a :: 32 word) = a" "ucast (ucast b :: 32 word) = b"
    by (simp_all add: ucast_up_ucast_id is_up)
  with h show "a = b" by metis
qed simp

lemma equalConstTime_loop_zero:
  "length b1 = length b2 \<Longrightarrow>
   equalConstTime_loop b1 b2 i res = 0 \<longleftrightarrow>
     res = 0 \<and> (\<forall>j. i \<le> j \<and> j < length b1 \<longrightarrow> b1 ! j = b2 ! j)"
proof (induction b1 b2 i res rule: equalConstTime_loop.induct)
  case (1 b1 b2 i res)
  show ?case
  proof (cases "i < length b1")
    case False
    have stop: "equalConstTime_loop b1 b2 i res = res"
      using False by (simp add: equalConstTime_loop.simps [of b1 b2 i res])
    from False have "\<forall>j. i \<le> j \<and> j < length b1 \<longrightarrow> b1 ! j = b2 ! j"
      by auto
    with stop show ?thesis by simp
  next
    case True
    have step: "equalConstTime_loop b1 b2 i res =
          equalConstTime_loop b1 b2 (i + 1) (res OR (buffer_at b1 i XOR buffer_at b2 i))"
      using True by (simp add: equalConstTime_loop.simps [of b1 b2 i res])
    have here: "buffer_at b1 i XOR buffer_at b2 i = 0 \<longleftrightarrow> b1 ! i = b2 ! i"
      using True "1.prems" by (simp add: buffer_at_def xor_word_zero_iff ucast_byte_inj)
    have split: "(\<forall>j. i \<le> j \<and> j < length b1 \<longrightarrow> b1 ! j = b2 ! j) \<longleftrightarrow>
        b1 ! i = b2 ! i \<and> (\<forall>j. i + 1 \<le> j \<and> j < length b1 \<longrightarrow> b1 ! j = b2 ! j)"
    proof (intro iffI conjI allI impI)
      assume all: "\<forall>j. i \<le> j \<and> j < length b1 \<longrightarrow> b1 ! j = b2 ! j"
      from all True show "b1 ! i = b2 ! i" by simp
      fix j assume "i + 1 \<le> j \<and> j < length b1"
      with all show "b1 ! j = b2 ! j" by simp
    next
      fix j
      assume rest: "b1 ! i = b2 ! i \<and> (\<forall>j. i + 1 \<le> j \<and> j < length b1 \<longrightarrow> b1 ! j = b2 ! j)"
        and j: "i \<le> j \<and> j < length b1"
      show "b1 ! j = b2 ! j"
      proof (cases "j = i")
        case True
        with rest show ?thesis by simp
      next
        case False
        with j have "i + 1 \<le> j \<and> j < length b1" by simp
        with rest show ?thesis by blast
      qed
    qed
    show ?thesis
      unfolding step using "1.IH" [OF True "1.prems"] here split
      by (simp add: or_eq_0_iff)
  qed
qed

text \<open>
  C10. For every pair of byte buffers, \<open>equalConstTime\<close> returns true if and only if the
  two buffers have the same length and identical bytes at every index.
\<close>

theorem equalConstTime_iff_same_bytes:
  "equalConstTime b1 b2 \<longleftrightarrow>
     length b1 = length b2 \<and> (\<forall>i. i < length b1 \<longrightarrow> b1 ! i = b2 ! i)"
  by (simp add: equalConstTime_def equalConstTime_loop_zero)

theorem equalConstTime_iff_same_bytes_witness:
  "equalConstTime [1, 2, 3] [1, 2, 3] \<and> \<not> equalConstTime [1, 2, 3] [1, 2, 4]
   \<and> \<not> equalConstTime [1, 2] [1, 2, 3]"
  using equalConstTime_iff_same_bytes [of "[1, 2, 3]" "[1, 2, 3]"]
        equalConstTime_iff_same_bytes [of "[1, 2, 3]" "[1, 2, 4]"]
        equalConstTime_iff_same_bytes [of "[1, 2]" "[1, 2, 3]"]
  by (simp add: nth_Cons' less_Suc_eq)

subsection \<open>Address authorization\<close>

text \<open>
  C2. For every request (write or list): with a whitelist configured, \<open>validate\<close> succeeds
  only when the address recovered from the bearer token is a member of the whitelist, and
  otherwise throws a \<open>ValidationError\<close> whose message names the rejected address; with no
  whitelist, every recovered address is accepted. Both \<open>handleRequest\<close> and
  \<open>handleListFiles\<close> fail with the error of \<open>validate\<close>.
\<close>

theorem validate_whitelist:
  "(validate au srv address hdrs = Inr () \<longleftrightarrow>
      (\<exists>a. validateAuthorizationHeader au (authorization hdrs) (serverName srv) address
               (requireCorrectHubUrl srv) (validHubUrls srv) (blacklist srv) = Inr a
           \<and> (\<forall>wl. whitelist srv = Some wl \<longrightarrow> a \<in> set wl)))
   \<and> (\<forall>a wl. validateAuthorizationHeader au (authorization hdrs) (serverName srv) address
               (requireCorrectHubUrl srv) (validHubUrls srv) (blacklist srv) = Inr a
           \<and> whitelist srv = Some wl \<and> a \<notin> set wl
        \<longrightarrow> validate au srv address hdrs
              = Inl (ValidationError (''Address '' @ a @ '' not authorized for writes'')))
   \<and> (\<forall>e. validate au srv address hdrs = Inl e
        \<longrightarrow> snd (handleRequest au srv address p hdrs st) = Thrown e
            \<and> handleListFiles au srv address pg hdrs = Thrown e)"
  by (auto simp: validate_def handleRequest_def handleListFiles_def split: sum.splits option.splits)

theorem validate_whitelist_witness:
  "validate (demo_authentication []) (demo_server (Some [''alice'']) None) ''alice''
       (demo_headers ''alice'' None) = Inr ()
   \<and> validate (demo_authentication []) (demo_server (Some [''alice'']) None) ''bob''
       (demo_headers ''bob'' None) = Inl (ValidationError ''Address bob not authorized for writes'')
   \<and> validate (demo_authentication []) (demo_server None None) ''bob''
       (demo_headers ''bob'' None) = Inr ()
   \<and> handleListFiles (demo_authentication []) (demo_server (Some [''alice'']) None) ''bob'' None
       (demo_headers ''bob'' None) = Thrown (ValidationError ''Address bob not authorized for writes'')"
  using validate_whitelist [of "demo_authentication []" "demo_server (Some [''alice'']) None" "''alice''"
          "demo_headers ''alice'' None" "''f''" "[]" None]
        validate_whitelist [of "demo_authentication []" "demo_server (Some [''alice'']) None" "''bob''"
          "demo_headers ''bob'' None" "''f''" "[]" None]
        validate_whitelist [of "demo_authentication []" "demo_server None None" "''bob''"
          "demo_headers ''bob'' None" "''f''" "[]" None]
  by (simp add: demo_authentication_def demo_server_def demo_headers_def)

subsection \<open>Path authorization by scopes\<close>

lemma collectScopes_prefixes:
  "set (fst (collectScopes scopes)) = {domain s | s. s \<in> set scopes \<and> scope s = ''putFilePrefix''}"
  by (induction scopes) (auto split: prod.splits)

lemma collectScopes_paths:
  "set (snd (collectScopes scopes)) = {domain s | s. s \<in> set scopes \<and> scope s = ''putFile''}"
  by (induction scopes) (auto split: prod.splits)

lemma found_truthy_iff:
  "(\<forall>x \<in> set xs. p x \<longrightarrow> x \<noteq> []) \<Longrightarrow> found_truthy p xs \<longleftrightarrow> (\<exists>x \<in> set xs. p x)"
  by (induction xs) (auto simp: found_truthy_def)

lemma scopesAllowWrite_sets:
  assumes "\<forall>s \<in> set scopes. (scope s = ''putFilePrefix'' \<or> scope s = ''putFile'') \<longrightarrow> domain s \<noteq> []"
  shows "scopesAllowWrite p scopes \<longleftrightarrow>
           (\<forall>s \<in> set scopes. scope s \<noteq> ''putFilePrefix'' \<and> scope s \<noteq> ''putFile'')
           \<or> (\<exists>s \<in> set scopes. (scope s = ''putFilePrefix'' \<and> prefix (domain s) p)
                                \<or> (scope s = ''putFile'' \<and> p = domain s))"
proof -
  obtain wp wf where c: "collectScopes scopes = (wp, wf)" by (cases "collectScopes scopes")
  have wp: "set wp = {domain s | s. s \<in> set scopes \<and> scope s = ''putFilePrefix''}"
    using collectScopes_prefixes [of scopes] c by simp
  have wf: "set wf = {domain s | s. s \<in> set scopes \<and> scope s = ''putFile''}"
    using collectScopes_paths [of scopes] c by simp
  have f1: "found_truthy (\<lambda>q. prefix q p) wp \<longleftrightarrow> (\<exists>x \<in> set wp. prefix x p)"
    using assms wp by (intro found_truthy_iff) auto
  have f2: "found_truthy (\<lambda>q. p = q) wf \<longleftrightarrow> (\<exists>x \<in> set wf. p = x)"
    using assms wf by (intro found_truthy_iff) auto
  have "wp = [] \<longleftrightarrow> set wp = {}" by simp
  then have e1: "wp = [] \<longleftrightarrow> (\<forall>s \<in> set scopes. scope s \<noteq> ''putFilePrefix'')"
    unfolding wp by blast
  have "wf = [] \<longleftrightarrow> set wf = {}" by simp
  then have e2: "wf = [] \<longleftrightarrow> (\<forall>s \<in> set scopes. scope s \<noteq> ''putFile'')"
    unfolding wf by blast
  have "scopesAllowWrite p scopes \<longleftrightarrow>
          (wp = [] \<and> wf = []) \<or> (\<exists>x \<in> set wp. prefix x p) \<or> (\<exists>x \<in> set wf. p = x)"
    using c f1 f2 by (auto simp: scopesAllowWrite_def Let_def)
  also have "\<dots> \<longleftrightarrow>
           (\<forall>s \<in> set scopes. scope s \<noteq> ''putFilePrefix'' \<and> scope s \<noteq> ''putFile'')
           \<or> (\<exists>s \<in> set scopes. (scope s = ''putFilePrefix'' \<and> prefix (domain s) p)
                                \<or> (scope s = ''putFile'' \<and> p = domain s))"
    unfolding e1 e2 wp wf by blast
  finally show ?thesis .
qed

lemma scopesAllowWrite_no_put:
  "\<forall>s \<in> set scopes. scope s \<noteq> ''putFilePrefix'' \<and> scope s \<noteq> ''putFile'' \<Longrightarrow>
   scopesAllowWrite p scopes"
proof -
  assume h: "\<forall>s \<in> set scopes. scope s \<noteq> ''putFilePrefix'' \<and> scope s \<noteq> ''putFile''"
  then have "collectScopes scopes = ([], [])"
    by (induction scopes) auto
  then show ?thesis by (simp add: scopesAllowWrite_def)
qed

lemma handleRequest_scope_failure:
  "validate au srv address hdrs = Inr () \<Longrightarrow>
   getAuthenticationScopes au (authorization hdrs) = Inr scopes \<Longrightarrow>
   \<not> scopesAllowWrite p scopes \<Longrightarrow>
   handleRequest au srv address p hdrs st =
     ([CallValidate, CallGetAuthenticationScopes],
      Thrown (ValidationError (''Address '' @ address @ '' not authorized to write to '' @ p @ '' by scopes'')))"
  by (simp add: handleRequest_def)

lemma handleRequest_scope_pass:
  "validate au srv address hdrs = Inr () \<Longrightarrow>
   getAuthenticationScopes au (authorization hdrs) = Inr scopes \<Longrightarrow>
   scopesAllowWrite p scopes \<Longrightarrow>
   CallCheckProofs address p (getReadURLPrefix srv) \<in> set (fst (handleRequest au srv address p hdrs st))"
  by (simp add: handleRequest_def Let_def split: outcome.splits)

text \<open>
  C1 (as the code has it). If the list of scopes holds no \<open>putFilePrefix\<close> and no \<open>putFile\<close>
  scope (in particular if it is empty), the path check allows every path. Otherwise, when
  every such scope has a non-empty domain, the write is allowed if and only if the path
  starts with the domain of some \<open>putFilePrefix\<close> scope or equals the domain of some
  \<open>putFile\<close> scope, and reordering the list does not change the decision. When the check
  fails, \<open>handleRequest\<close> throws a \<open>ValidationError\<close> before the proof checker is called;
  when it passes, the proof checker is called. With scopes \<open>[{putFilePrefix, "a/"}]\<close> the
  paths \<open>a/b\<close> and \<open>a/\<close> are authorized and \<open>b/a\<close> is not.
\<close>

theorem scopes_decide_write:
  "((\<forall>s \<in> set scopes. scope s \<noteq> ''putFilePrefix'' \<and> scope s \<noteq> ''putFile'')
      \<longrightarrow> scopesAllowWrite p scopes)
   \<and> ((\<forall>s \<in> set scopes. (scope s = ''putFilePrefix'' \<or> scope s = ''putFile'') \<longrightarrow> domain s \<noteq> [])
        \<and> (\<exists>s \<in> set scopes. scope s = ''putFilePrefix'' \<or> scope s = ''putFile'')
      \<longrightarrow> (scopesAllowWrite p scopes \<longleftrightarrow>
             (\<exists>s \<in> set scopes. (scope s = ''putFilePrefix'' \<and> prefix (domain s) p)
                                \<or> (scope s = ''putFile'' \<and> p = domain s))))
   \<and> ((\<forall>s \<in> set scopes. (scope s = ''putFilePrefix'' \<or> scope s = ''putFile'') \<longrightarrow> domain s \<noteq> [])
        \<and> mset scopes' = mset scopes
      \<longrightarrow> scopesAllowWrite p scopes' = scopesAllowWrite p scopes)
   \<and> (validate au srv address hdrs = Inr ()
        \<and> getAuthenticationScopes au (authorization hdrs) = Inr scopes
      \<longrightarrow> (if scopesAllowWrite p scopes
           then CallCheckProofs address p (getReadURLPrefix srv)
                  \<in> set (fst (handleRequest au srv address p hdrs st))
           else handleRequest au srv address p hdrs st =
                  ([CallValidate, CallGetAuthenticationScopes],
                   Thrown (ValidationError (''Address '' @ address @ '' not authorized to write to ''
                                            @ p @ '' by scopes'')))))
   \<and> scopesAllowWrite ''a/b'' [\<lparr>scope = ''putFilePrefix'', domain = ''a/''\<rparr>]
   \<and> scopesAllowWrite ''a/'' [\<lparr>scope = ''putFilePrefix'', domain = ''a/''\<rparr>]
   \<and> \<not> scopesAllowWrite ''b/a'' [\<lparr>scope = ''putFilePrefix'', domain = ''a/''\<rparr>]"
proof (intro conjI impI)
  assume "\<forall>s \<in> set scopes. scope s \<noteq> ''putFilePrefix'' \<and> scope s \<noteq> ''putFile''"
  then show "scopesAllowWrite p scopes" by (rule scopesAllowWrite_no_put)
next
  assume h: "(\<forall>s \<in> set scopes. (scope s = ''putFilePrefix'' \<or> scope s = ''putFile'') \<longrightarrow> domain s \<noteq> [])
        \<and> (\<exists>s \<in> set scopes. scope s = ''putFilePrefix'' \<or> scope s = ''putFile'')"
  then show "scopesAllowWrite p scopes \<longleftrightarrow>
             (\<exists>s \<in> set scopes. (scope s = ''putFilePrefix'' \<and> prefix (domain s) p)
                                \<or> (scope s = ''putFile'' \<and> p = domain s))"
    using scopesAllowWrite_sets [of scopes p] by blast
next
  assume h: "(\<forall>s \<in> set scopes. (scope s = ''putFilePrefix'' \<or> scope s = ''putFile'') \<longrightarrow> domain s \<noteq> [])
        \<and> mset scopes' = mset scopes"
  then have eq: "set scopes' = set scopes" by (metis mset_eq_setD)
  with h have h': "\<forall>s \<in> set scopes'. (scope s = ''putFilePrefix'' \<or> scope s = ''putFile'') \<longrightarrow> domain s \<noteq> []"
    by simp
  show "scopesAllowWrite p scopes' = scopesAllowWrite p scopes"
    using scopesAllowWrite_sets [OF h', of p] scopesAllowWrite_sets [of scopes p] h eq by simp
next
  assume "validate au srv address hdrs = Inr ()
        \<and> getAuthenticationScopes au (authorization hdrs) = Inr scopes"
  then show "if scopesAllowWrite p scopes
           then CallCheckProofs address p (getReadURLPrefix srv)
                  \<in> set (fst (handleRequest au srv address p hdrs st))
           else handleRequest au srv address p hdrs st =
                  ([CallValidate, CallGetAuthenticationScopes],
                   Thrown (ValidationError (''Address '' @ address @ '' not authorized to write to ''
                                            @ p @ '' by scopes'')))"
    using handleRequest_scope_failure [of au srv address hdrs scopes p st]
          handleRequest_scope_pass [of au srv address hdrs scopes p st]
    by simp
qed (simp_all add: scopesAllowWrite_def found_truthy_def)

theorem scopes_decide_write_witness:
  "scopesAllowWrite ''a/b'' [\<lparr>scope = ''putFile'', domain = ''c''\<rparr>, \<lparr>scope = ''putFilePrefix'', domain = ''a/''\<rparr>]
   \<and> scopesAllowWrite ''a/b'' [\<lparr>scope = ''putFilePrefix'', domain = ''a/''\<rparr>, \<lparr>scope = ''putFile'', domain = ''c''\<rparr>]
   \<and> scopesAllowWrite ''c'' [\<lparr>scope = ''putFile'', domain = ''c''\<rparr>, \<lparr>scope = ''putFilePrefix'', domain = ''a/''\<rparr>]
   \<and> handleRequest
        (demo_authentication [\<lparr>scope = ''putFile'', domain = ''c''\<rparr>, \<lparr>scope = ''putFilePrefix'', domain = ''a/''\<rparr>])
        (demo_server None None) ''alice'' ''b/a'' (demo_headers ''alice'' None) []
      = ([CallValidate, CallGetAuthenticationScopes],
         Thrown (ValidationError ''Address alice not authorized to write to b/a by scopes''))"
  using scopes_decide_write
          [of "[\<lparr>scope = ''putFile'', domain = ''c''\<rparr>, \<lparr>scope = ''putFilePrefix'', domain = ''a/''\<rparr>]"
              "''a/b''"
              "[\<lparr>scope = ''putFilePrefix'', domain = ''a/''\<rparr>, \<lparr>scope = ''putFile'', domain = ''c''\<rparr>]"
              "demo_authentication [\<lparr>scope = ''putFile'', domain = ''c''\<rparr>, \<lparr>scope = ''putFilePrefix'', domain = ''a/''\<rparr>]"
              "demo_server None None" "''alice''" "demo_headers ''alice'' None" "[]"]
        scopes_decide_write
          [of "[\<lparr>scope = ''putFile'', domain = ''c''\<rparr>, \<lparr>scope = ''putFilePrefix'', domain = ''a/''\<rparr>]"
              "''b/a''"
              "[\<lparr>scope = ''putFilePrefix'', domain = ''a/''\<rparr>, \<lparr>scope = ''putFile'', domain = ''c''\<rparr>]"
              "demo_authentication [\<lparr>scope = ''putFile'', domain = ''c''\<rparr>, \<lparr>scope = ''putFilePrefix'', domain = ''a/''\<rparr>]"
              "demo_server None None" "''alice''" "demo_headers ''alice'' None" "[]"]
  by (simp add: scopesAllowWrite_def found_truthy_def validate_def demo_authentication_def
        demo_server_def demo_headers_def handleRequest_def)

text \<open>
  The claim as first stated fails in two places. A non-empty list whose scopes are of
  another kind restricts nothing: the guard looks at the collected prefixes and paths, not
  at the list. And a scope with the empty string as domain never matches, because
  \<open>!!find(...)\<close> tests the element found and the empty string is falsy; placed before a
  matching prefix it also hides that prefix, so that the order of the scopes matters.
\<close>

theorem scopes_claim_counterexample:
  "scopesAllowWrite ''b'' [\<lparr>scope = ''getFile'', domain = ''x''\<rparr>]
   \<and> \<not> spec_authorizePathForWrite ''b'' [\<lparr>scope = ''getFile'', domain = ''x''\<rparr>]
   \<and> \<not> scopesAllowWrite ''a'' [\<lparr>scope = ''putFilePrefix'', domain = ''''\<rparr>]
   \<and> spec_authorizePathForWrite ''a'' [\<lparr>scope = ''putFilePrefix'', domain = ''''\<rparr>]
   \<and> scopesAllowWrite ''a/b'' [\<lparr>scope = ''putFilePrefix'', domain = ''a/''\<rparr>,
                               \<lparr>scope = ''putFilePrefix'', domain = ''''\<rparr>]
   \<and> \<not> scopesAllowWrite ''a/b'' [\<lparr>scope = ''putFilePrefix'', domain = ''''\<rparr>,
                                 \<lparr>scope = ''putFilePrefix'', domain = ''a/''\<rparr>]"
  by (simp add: scopesAllowWrite_def found_truthy_def spec_authorizePathForWrite_def)

subsection \<open>The write pipeline\<close>

text \<open>Every run of \<open>handleRequest\<close> ends in one of eight ways.\<close>

lemma handleRequest_cases:
  "handleRequest au srv address p hdrs st = (steps, out) \<Longrightarrow>
   (\<exists>e. validate au srv address hdrs = Inl e \<and> steps = [CallValidate] \<and> out = Thrown e)
   \<or> (validate au srv address hdrs = Inr () \<and>
       ((\<exists>e. getAuthenticationScopes au (authorization hdrs) = Inl e
             \<and> steps = [CallValidate, CallGetAuthenticationScopes] \<and> out = Thrown e)
        \<or> (\<exists>scopes. getAuthenticationScopes au (authorization hdrs) = Inr scopes \<and>
              ((\<not> scopesAllowWrite p scopes
                  \<and> steps = [CallValidate, CallGetAuthenticationScopes]
                  \<and> (\<exists>m. out = Thrown (ValidationError m)))
               \<or> (scopesAllowWrite p scopes \<and>
                   (\<exists>cmd. cmd = \<lparr> storageTopLevel = address, path = p, stream = st,
                                  contentType = (case content_type hdrs of
                                                   None \<Rightarrow> ''application/octet-stream''
                                                 | Some c \<Rightarrow> c),
                                  contentLength = (case content_length hdrs of
                                                     None \<Rightarrow> NaN | Some l \<Rightarrow> parseInt l) \<rparr> \<and>
                      ((\<exists>e. checkProofs (proofChecker srv) address p (getReadURLPrefix srv) = Thrown e
                            \<and> steps = [CallValidate, CallGetAuthenticationScopes,
                                       CallCheckProofs address p (getReadURLPrefix srv)]
                            \<and> out = Thrown e)
                       \<or> (\<exists>e. checkProofs (proofChecker srv) address p (getReadURLPrefix srv) = Rejected e
                            \<and> steps = [CallValidate, CallGetAuthenticationScopes,
                                       CallCheckProofs address p (getReadURLPrefix srv)]
                            \<and> out = Rejected e)
                       \<or> (checkProofs (proofChecker srv) address p (getReadURLPrefix srv) = Resolved ()
                           \<and> ((\<exists>e. (performWrite (driver srv) cmd = Thrown e
                                      \<or> performWrite (driver srv) cmd = Rejected e)
                                  \<and> steps = [CallValidate, CallGetAuthenticationScopes,
                                             CallCheckProofs address p (getReadURLPrefix srv),
                                             CallPerformWrite cmd]
                                  \<and> out = Rejected e)
                               \<or> (\<exists>u. performWrite (driver srv) cmd = Resolved u
                                  \<and> steps = [CallValidate, CallGetAuthenticationScopes,
                                             CallCheckProofs address p (getReadURLPrefix srv),
                                             CallPerformWrite cmd, RunUrlRewrite u]
                                  \<and> out = Resolved (rewriteReadURL srv u)))))))))))"
  unfolding handleRequest_def Let_def
  by (cases "validate au srv address hdrs";
      cases "getAuthenticationScopes au (authorization hdrs)";
      cases "checkProofs (proofChecker srv) address p (getReadURLPrefix srv)";
      cases "performWrite (driver srv) \<lparr> storageTopLevel = address, path = p, stream = st,
                                  contentType = (case content_type hdrs of
                                                   None \<Rightarrow> ''application/octet-stream''
                                                 | Some c \<Rightarrow> c),
                                  contentLength = (case content_length hdrs of
                                                     None \<Rightarrow> NaN | Some l \<Rightarrow> parseInt l) \<rparr>")
     (auto split: if_splits)

lemma rewriteReadURL_replaces:
  "rewriteReadURL srv u =
     (if (\<exists>r. readURL srv = Some r \<and> r \<noteq> [] \<and> r \<noteq> driver_getReadURLPrefix (driver srv))
         \<and> prefix (driver_getReadURLPrefix (driver srv)) u
      then the (readURL srv) @ drop (length (driver_getReadURLPrefix (driver srv))) u
      else u)"
  by (auto simp: rewriteReadURL_def getReadURLPrefix_def Let_def split: option.splits)

text \<open>
  C7. For every completed write: if the server has a configured public read URL that
  differs from the driver's read-URL prefix and the URL returned by the driver starts with
  the driver's prefix, \<open>handleRequest\<close> returns the driver's URL with that prefix replaced
  by the configured one; in every other case it returns the driver's URL unchanged. (A read
  URL is configured when it is neither \<open>null\<close> nor the empty string.)
\<close>

theorem handleRequest_rewrites_url:
  "handleRequest au srv address p hdrs st = (steps, Resolved url) \<Longrightarrow>
   \<exists>cmd u. CallPerformWrite cmd \<in> set steps \<and> performWrite (driver srv) cmd = Resolved u \<and>
     (if (\<exists>r. readURL srv = Some r \<and> r \<noteq> [] \<and> r \<noteq> driver_getReadURLPrefix (driver srv))
         \<and> prefix (driver_getReadURLPrefix (driver srv)) u
      then \<exists>r rest. readURL srv = Some r \<and> u = driver_getReadURLPrefix (driver srv) @ rest
                     \<and> url = r @ rest
      else url = u)"
proof -
  assume h: "handleRequest au srv address p hdrs st = (steps, Resolved url)"
  from handleRequest_cases [OF h]
  obtain cmd u where w: "performWrite (driver srv) cmd = Resolved u"
      and st: "CallPerformWrite cmd \<in> set steps"
      and url: "url = rewriteReadURL srv u"
    by auto
  have "if (\<exists>r. readURL srv = Some r \<and> r \<noteq> [] \<and> r \<noteq> driver_getReadURLPrefix (driver srv))
         \<and> prefix (driver_getReadURLPrefix (driver srv)) u
      then \<exists>r rest. readURL srv = Some r \<and> u = driver_getReadURLPrefix (driver srv) @ rest
                     \<and> url = r @ rest
      else url = u"
    unfolding url rewriteReadURL_replaces [of srv u]
    by (auto simp: prefix_def)
  with w st show ?thesis by blast
qed

theorem handleRequest_rewrites_url_witness:
  "handleRequest (demo_authentication []) (demo_server None (Some ''https://hub/'')) ''alice'' ''foo/bar''
       (demo_headers ''alice'' None) []
     = ([CallValidate, CallGetAuthenticationScopes,
         CallCheckProofs ''alice'' ''foo/bar'' ''https://hub/'',
         CallPerformWrite \<lparr> storageTopLevel = ''alice'', path = ''foo/bar'', stream = [],
                             contentType = ''application/octet-stream'', contentLength = Num 4 \<rparr>,
         RunUrlRewrite ''http://driver/alice/foo/bar''],
        Resolved ''https://hub/alice/foo/bar'')
   \<and> (\<exists>cmd u. performWrite (driver (demo_server None (Some ''https://hub/''))) cmd = Resolved u
         \<and> (\<exists>rest. u = ''http://driver/'' @ rest \<and> ''https://hub/alice/foo/bar'' = ''https://hub/'' @ rest))"
proof -
  have run: "handleRequest (demo_authentication []) (demo_server None (Some ''https://hub/'')) ''alice'' ''foo/bar''
       (demo_headers ''alice'' None) []
     = ([CallValidate, CallGetAuthenticationScopes,
         CallCheckProofs ''alice'' ''foo/bar'' ''https://hub/'',
         CallPerformWrite \<lparr> storageTopLevel = ''alice'', path = ''foo/bar'', stream = [],
                             contentType = ''application/octet-stream'', contentLength = Num 4 \<rparr>,
         RunUrlRewrite ''http://driver/alice/foo/bar''],
        Resolved ''https://hub/alice/foo/bar'')"
    by (simp add: handleRequest_defs demo_defs parseInt_defs)
  from handleRequest_rewrites_url [OF run]
  obtain cmd u where w: "performWrite (driver (demo_server None (Some ''https://hub/''))) cmd = Resolved u"
    and c: "if (\<exists>r. readURL (demo_server None (Some ''https://hub/'')) = Some r \<and> r \<noteq> []
                  \<and> r \<noteq> driver_getReadURLPrefix (driver (demo_server None (Some ''https://hub/''))))
         \<and> prefix (driver_getReadURLPrefix (driver (demo_server None (Some ''https://hub/'')))) u
      then \<exists>r rest. readURL (demo_server None (Some ''https://hub/'')) = Some r
                     \<and> u = driver_getReadURLPrefix (driver (demo_server None (Some ''https://hub/''))) @ rest
                     \<and> ''https://hub/alice/foo/bar'' = r @ rest
      else ''https://hub/alice/foo/bar'' = u"
    by blast
  have "\<exists>rest. u = ''http://driver/'' @ rest \<and> ''https://hub/alice/foo/bar'' = ''https://hub/'' @ rest"
  proof (cases "prefix ''http://driver/'' u")
    case True
    with c show ?thesis by (simp add: demo_server_def demo_driver_def)
  next
    case False
    with c have "u = ''https://hub/alice/foo/bar''" by (simp add: demo_server_def demo_driver_def)
    with w show ?thesis
      by (auto simp: demo_server_def demo_driver_def split: if_splits)
  qed
  with run w show ?thesis by blast
qed

text \<open>
  C8. The steps of \<open>handleRequest\<close> run in the order validate, scope check, proof check,
  driver write, URL rewrite, and a failure at any step ends the request there with that
  failure: the scopes are not read and the proof checker is not consulted when validation
  fails; the proof checker is not consulted when reading the scopes throws or the scope
  check fails; \<open>performWrite\<close> is not invoked when the proof check fails; and the URL
  rewrite is not applied to a failed write. When every step succeeds, the result is the
  rewritten URL of what \<open>performWrite\<close> returned for the write command.
\<close>

theorem handleRequest_short_circuits:
  "handleRequest au srv address p hdrs st = (steps, out) \<Longrightarrow>
   (\<exists>cmd u. prefix steps [CallValidate, CallGetAuthenticationScopes,
                           CallCheckProofs address p (getReadURLPrefix srv),
                           CallPerformWrite cmd, RunUrlRewrite u])
   \<and> (\<forall>e. validate au srv address hdrs = Inl e \<longrightarrow> out = Thrown e \<and> steps = [CallValidate])
   \<and> ((\<forall>x. checkProofs (proofChecker srv) address p (getReadURLPrefix srv) \<noteq> Resolved x)
        \<longrightarrow> (\<forall>cmd. CallPerformWrite cmd \<notin> set steps) \<and> (\<forall>u. RunUrlRewrite u \<notin> set steps)
            \<and> (\<forall>u. out \<noteq> Resolved u))
   \<and> (\<forall>cmd. CallPerformWrite cmd \<in> set steps \<and> (\<forall>u. performWrite (driver srv) cmd \<noteq> Resolved u)
        \<longrightarrow> (\<forall>u. RunUrlRewrite u \<notin> set steps) \<and> (\<exists>e. out = Rejected e))
   \<and> ((\<exists>u. RunUrlRewrite u \<in> set steps) \<longleftrightarrow> (\<exists>url. out = Resolved url))
   \<and> (validate au srv address hdrs = Inr () \<longrightarrow>
        (\<forall>e. getAuthenticationScopes au (authorization hdrs) = Inl e \<longrightarrow>
             steps = [CallValidate, CallGetAuthenticationScopes] \<and> out = Thrown e)
      \<and> (\<forall>scopes. getAuthenticationScopes au (authorization hdrs) = Inr scopes \<longrightarrow>
           (\<not> scopesAllowWrite p scopes \<longrightarrow>
              steps = [CallValidate, CallGetAuthenticationScopes]
              \<and> out = Thrown (ValidationError (''Address '' @ address @ '' not authorized to write to ''
                                               @ p @ '' by scopes'')))
         \<and> (scopesAllowWrite p scopes \<longrightarrow>
              (\<forall>e. checkProofs (proofChecker srv) address p (getReadURLPrefix srv) = Thrown e \<longrightarrow>
                   steps = [CallValidate, CallGetAuthenticationScopes,
                            CallCheckProofs address p (getReadURLPrefix srv)]
                   \<and> out = Thrown e)
            \<and> (\<forall>e. checkProofs (proofChecker srv) address p (getReadURLPrefix srv) = Rejected e \<longrightarrow>
                   steps = [CallValidate, CallGetAuthenticationScopes,
                            CallCheckProofs address p (getReadURLPrefix srv)]
                   \<and> out = Rejected e)
            \<and> (checkProofs (proofChecker srv) address p (getReadURLPrefix srv) = Resolved () \<longrightarrow>
                 (\<forall>cmd. cmd = \<lparr> storageTopLevel = address, path = p, stream = st,
                                contentType = (case content_type hdrs of
                                                 None \<Rightarrow> ''application/octet-stream''
                                               | Some c \<Rightarrow> c),
                                contentLength = (case content_length hdrs of
                                                   None \<Rightarrow> NaN | Some l \<Rightarrow> parseInt l) \<rparr> \<longrightarrow>
                    (\<forall>e. performWrite (driver srv) cmd = Thrown e
                          \<or> performWrite (driver srv) cmd = Rejected e \<longrightarrow>
                         steps = [CallValidate, CallGetAuthenticationScopes,
                                  CallCheckProofs address p (getReadURLPrefix srv),
                                  CallPerformWrite cmd]
                         \<and> out = Rejected e)
                  \<and> (\<forall>u. performWrite (driver srv) cmd = Resolved u \<longrightarrow>
                         steps = [CallValidate, CallGetAuthenticationScopes,
                                  CallCheckProofs address p (getReadURLPrefix srv),
                                  CallPerformWrite cmd, RunUrlRewrite u]
                         \<and> out = Resolved (rewriteReadURL srv u)))))))"
proof -
  assume h: "handleRequest au srv address p hdrs st = (steps, out)"
  note c = handleRequest_cases [OF h]
  have order: "\<exists>cmd u. prefix steps [CallValidate, CallGetAuthenticationScopes,
                           CallCheckProofs address p (getReadURLPrefix srv),
                           CallPerformWrite cmd, RunUrlRewrite u]"
    using c by (elim disjE exE conjE) (auto simp: prefix_def)
  have v: "\<forall>e. validate au srv address hdrs = Inl e \<longrightarrow> out = Thrown e \<and> steps = [CallValidate]"
    using c by auto
  have pc: "(\<forall>x. checkProofs (proofChecker srv) address p (getReadURLPrefix srv) \<noteq> Resolved x)
        \<longrightarrow> (\<forall>cmd. CallPerformWrite cmd \<notin> set steps) \<and> (\<forall>u. RunUrlRewrite u \<notin> set steps)
            \<and> (\<forall>u. out \<noteq> Resolved u)"
    using c by (elim disjE exE conjE) auto
  have w: "\<forall>cmd. CallPerformWrite cmd \<in> set steps \<and> (\<forall>u. performWrite (driver srv) cmd \<noteq> Resolved u)
        \<longrightarrow> (\<forall>u. RunUrlRewrite u \<notin> set steps) \<and> (\<exists>e. out = Rejected e)"
    using c by (elim disjE exE conjE) auto
  have r: "(\<exists>u. RunUrlRewrite u \<in> set steps) \<longleftrightarrow> (\<exists>url. out = Resolved url)"
    using c by (elim disjE exE conjE) auto
  have stages: "validate au srv address hdrs = Inr () \<longrightarrow>
        (\<forall>e. getAuthenticationScopes au (authorization hdrs) = Inl e \<longrightarrow>
             steps = [CallValidate, CallGetAuthenticationScopes] \<and> out = Thrown e)
      \<and> (\<forall>scopes. getAuthenticationScopes au (authorization hdrs) = Inr scopes \<longrightarrow>
           (\<not> scopesAllowWrite p scopes \<longrightarrow>
              steps = [CallValidate, CallGetAuthenticationScopes]
              \<and> out = Thrown (ValidationError (''Address '' @ address @ '' not authorized to write to ''
                                               @ p @ '' by scopes'')))
         \<and> (scopesAllowWrite p scopes \<longrightarrow>
              (\<forall>e. checkProofs (proofChecker srv) address p (getReadURLPrefix srv) = Thrown e \<longrightarrow>
                   steps = [CallValidate, CallGetAuthenticationScopes,
                            CallCheckProofs address p (getReadURLPrefix srv)]
                   \<and> out = Thrown e)
            \<and> (\<forall>e. checkProofs (proofChecker srv) address p (getReadURLPrefix srv) = Rejected e \<longrightarrow>
                   steps = [CallValidate, CallGetAuthenticationScopes,
                            CallCheckProofs address p (getReadURLPrefix srv)]
                   \<and> out = Rejected e)
            \<and> (checkProofs (proofChecker srv) address p (getReadURLPrefix srv) = Resolved () \<longrightarrow>
                 (\<forall>cmd. cmd = \<lparr> storageTopLevel = address, path = p, stream = st,
                                contentType = (case content_type hdrs of
                                                 None \<Rightarrow> ''application/octet-stream''
                                               | Some c \<Rightarrow> c),
                                contentLength = (case content_length hdrs of
                                                   None \<Rightarrow> NaN | Some l \<Rightarrow> parseInt l) \<rparr> \<longrightarrow>
                    (\<forall>e. performWrite (driver srv) cmd = Thrown e
                          \<or> performWrite (driver srv) cmd = Rejected e \<longrightarrow>
                         steps = [CallValidate, CallGetAuthenticationScopes,
                                  CallCheckProofs address p (getReadURLPrefix srv),
                                  CallPerformWrite cmd]
                         \<and> out = Rejected e)
                  \<and> (\<forall>u. performWrite (driver srv) cmd = Resolved u \<longrightarrow>
                         steps = [CallValidate, CallGetAuthenticationScopes,
                                  CallCheckProofs address p (getReadURLPrefix srv),
                                  CallPerformWrite cmd, RunUrlRewrite u]
                         \<and> out = Resolved (rewriteReadURL srv u))))))"
    using h unfolding handleRequest_def Let_def
    by (auto split: sum.splits outcome.splits if_splits)
  from order v pc w r stages show ?thesis by blast
qed

theorem handleRequest_short_circuits_witness:
  "handleRequest (demo_authentication []) (demo_server (Some [''alice'']) None) ''bob'' ''foo''
       (demo_headers ''bob'' None) []
     = ([CallValidate], Thrown (ValidationError ''Address bob not authorized for writes''))
   \<and> handleRequest (demo_authentication [\<lparr>scope = ''putFilePrefix'', domain = ''a/''\<rparr>])
       (demo_server None None) ''alice'' ''b/a'' (demo_headers ''alice'' None) []
     = ([CallValidate, CallGetAuthenticationScopes],
        Thrown (ValidationError ''Address alice not authorized to write to b/a by scopes''))
   \<and> handleRequest (demo_authentication []) (demo_server None None) ''alice'' ''unproven''
       (demo_headers ''alice'' None) []
     = ([CallValidate, CallGetAuthenticationScopes, CallCheckProofs ''alice'' ''unproven'' ''http://driver/''],
        Rejected (NotEnoughProofError ''Not enough social proofs''))
   \<and> handleRequest (demo_authentication []) (demo_server None None) ''alice'' ''..''
       (demo_headers ''alice'' None) []
     = ([CallValidate, CallGetAuthenticationScopes, CallCheckProofs ''alice'' ''..'' ''http://driver/'',
         CallPerformWrite \<lparr> storageTopLevel = ''alice'', path = ''..'', stream = [],
                             contentType = ''application/octet-stream'', contentLength = Num 4 \<rparr>],
        Rejected (BadPathError ''Invalid Path''))
   \<and> handleRequest (demo_authentication [\<lparr>scope = ''putFilePrefix'', domain = ''a/''\<rparr>])
       (demo_server None None) ''alice'' ''a/b'' (demo_headers ''alice'' None) []
     = ([CallValidate, CallGetAuthenticationScopes, CallCheckProofs ''alice'' ''a/b'' ''http://driver/'',
         CallPerformWrite \<lparr> storageTopLevel = ''alice'', path = ''a/b'', stream = [],
                             contentType = ''application/octet-stream'', contentLength = Num 4 \<rparr>,
         RunUrlRewrite ''http://driver/alice/a/b''],
        Resolved ''http://driver/alice/a/b'')"
proof -
  have run1: "handleRequest (demo_authentication []) (demo_server (Some [''alice'']) None) ''bob'' ''foo''
       (demo_headers ''bob'' None) []
     = ([CallValidate], Thrown (ValidationError ''Address bob not authorized for writes''))"
    by (simp add: handleRequest_defs demo_defs)
  have run2: "handleRequest (demo_authentication [\<lparr>scope = ''putFilePrefix'', domain = ''a/''\<rparr>])
       (demo_server None None) ''alice'' ''b/a'' (demo_headers ''alice'' None) []
     = ([CallValidate, CallGetAuthenticationScopes],
        Thrown (ValidationError ''Address alice not authorized to write to b/a by scopes''))"
    by (simp add: handleRequest_defs demo_defs)
  have run3: "handleRequest (demo_authentication []) (demo_server None None) ''alice'' ''unproven''
       (demo_headers ''alice'' None) []
     = ([CallValidate, CallGetAuthenticationScopes, CallCheckProofs ''alice'' ''unproven'' ''http://driver/''],
        Rejected (NotEnoughProofError ''Not enough social proofs''))"
    by (simp add: handleRequest_defs demo_defs parseInt_defs)
  have run4: "handleRequest (demo_authentication []) (demo_server None None) ''alice'' ''..''
       (demo_headers ''alice'' None) []
     = ([CallValidate, CallGetAuthenticationScopes, CallCheckProofs ''alice'' ''..'' ''http://driver/'',
         CallPerformWrite \<lparr> storageTopLevel = ''alice'', path = ''..'', stream = [],
                             contentType = ''application/octet-stream'', contentLength = Num 4 \<rparr>],
        Rejected (BadPathError ''Invalid Path''))"
    by (simp add: handleRequest_defs demo_defs parseInt_defs)
  have run5: "handleRequest (demo_authentication [\<lparr>scope = ''putFilePrefix'', domain = ''a/''\<rparr>])
       (demo_server None None) ''alice'' ''a/b'' (demo_headers ''alice'' None) []
     = ([CallValidate, CallGetAuthenticationScopes, CallCheckProofs ''alice'' ''a/b'' ''http://driver/'',
         CallPerformWrite \<lparr> storageTopLevel = ''alice'', path = ''a/b'', stream = [],
                             contentType = ''application/octet-stream'', contentLength = Num 4 \<rparr>,
         RunUrlRewrite ''http://driver/alice/a/b''],
        Resolved ''http://driver/alice/a/b'')"
    by (simp add: handleRequest_defs demo_defs parseInt_defs)
  from handleRequest_short_circuits [OF run1] handleRequest_short_circuits [OF run2]
       handleRequest_short_circuits [OF run3] handleRequest_short_circuits [OF run4]
       handleRequest_short_circuits [OF run5] run1 run2 run3 run4 run5
  show ?thesis by simp
qed

text \<open>
  C9. When the content-type header is absent, \<open>handleRequest\<close> performs the driver write
  with content type \<open>application/octet-stream\<close>; when it is present, its value is passed
  to the driver unchanged. The command logged and the command whose \<open>performWrite\<close> result
  decides the outcome of the request is the one with that content type.
\<close>

theorem handleRequest_content_type:
  "handleRequest au srv address p hdrs st = (steps, out) \<Longrightarrow>
   (\<forall>cmd. CallPerformWrite cmd \<in> set steps \<longrightarrow>
      (content_type hdrs = None \<longrightarrow> contentType cmd = ''application/octet-stream'')
      \<and> (\<forall>c. content_type hdrs = Some c \<longrightarrow> contentType cmd = c))
   \<and> (validate au srv address hdrs = Inr ()
       \<and> (\<exists>scopes. getAuthenticationScopes au (authorization hdrs) = Inr scopes
                   \<and> scopesAllowWrite p scopes)
       \<and> checkProofs (proofChecker srv) address p (getReadURLPrefix srv) = Resolved ()
       \<longrightarrow> (\<exists>cmd. CallPerformWrite cmd \<in> set steps)
           \<and> (\<forall>cmd. cmd = \<lparr> storageTopLevel = address, path = p, stream = st,
                              contentType = (case content_type hdrs of
                                               None \<Rightarrow> ''application/octet-stream''
                                             | Some c \<Rightarrow> c),
                              contentLength = (case content_length hdrs of
                                                 None \<Rightarrow> NaN | Some l \<Rightarrow> parseInt l) \<rparr> \<longrightarrow>
                 CallPerformWrite cmd \<in> set steps
                 \<and> (case performWrite (driver srv) cmd of
                       Resolved u \<Rightarrow> out = Resolved (rewriteReadURL srv u)
                     | Rejected e \<Rightarrow> out = Rejected e
                     | Thrown e \<Rightarrow> out = Rejected e)))"
proof -
  assume h: "handleRequest au srv address p hdrs st = (steps, out)"
  note c = handleRequest_cases [OF h]
  have a: "\<forall>cmd. CallPerformWrite cmd \<in> set steps \<longrightarrow>
      (content_type hdrs = None \<longrightarrow> contentType cmd = ''application/octet-stream'')
      \<and> (\<forall>c. content_type hdrs = Some c \<longrightarrow> contentType cmd = c)"
    using c by (elim disjE exE conjE) auto
  have b: "validate au srv address hdrs = Inr ()
       \<and> (\<exists>scopes. getAuthenticationScopes au (authorization hdrs) = Inr scopes
                   \<and> scopesAllowWrite p scopes)
       \<and> checkProofs (proofChecker srv) address p (getReadURLPrefix srv) = Resolved ()
       \<longrightarrow> (\<exists>cmd. CallPerformWrite cmd \<in> set steps)
           \<and> (\<forall>cmd. cmd = \<lparr> storageTopLevel = address, path = p, stream = st,
                              contentType = (case content_type hdrs of
                                               None \<Rightarrow> ''application/octet-stream''
                                             | Some c \<Rightarrow> c),
                              contentLength = (case content_length hdrs of
                                                 None \<Rightarrow> NaN | Some l \<Rightarrow> parseInt l) \<rparr> \<longrightarrow>
                 CallPerformWrite cmd \<in> set steps
                 \<and> (case performWrite (driver srv) cmd of
                       Resolved u \<Rightarrow> out = Resolved (rewriteReadURL srv u)
                     | Rejected e \<Rightarrow> out = Rejected e
                     | Thrown e \<Rightarrow> out = Rejected e))"
    using h unfolding handleRequest_def Let_def
    by (auto split: sum.splits outcome.splits if_splits)
  from a b show ?thesis by blast
qed

theorem handleRequest_content_type_witness:
  "handleRequest (demo_authentication []) (demo_server None None) ''alice'' ''foo''
       (demo_headers ''alice'' None) [1, 2, 3, 4]
     = ([CallValidate, CallGetAuthenticationScopes, CallCheckProofs ''alice'' ''foo'' ''http://driver/'',
         CallPerformWrite \<lparr> storageTopLevel = ''alice'', path = ''foo'', stream = [1, 2, 3, 4],
                             contentType = ''application/octet-stream'', contentLength = Num 4 \<rparr>,
         RunUrlRewrite ''http://driver/alice/foo''],
        Resolved ''http://driver/alice/foo'')
   \<and> handleRequest (demo_authentication []) (demo_server None None) ''alice'' ''foo''
       (demo_headers ''alice'' (Some ''text/plain'')) [1, 2, 3, 4]
     = ([CallValidate, CallGetAuthenticationScopes, CallCheckProofs ''alice'' ''foo'' ''http://driver/'',
         CallPerformWrite \<lparr> storageTopLevel = ''alice'', path = ''foo'', stream = [1, 2, 3, 4],
                             contentType = ''text/plain'', contentLength = Num 4 \<rparr>,
         RunUrlRewrite ''http://driver/alice/foo''],
        Resolved ''http://driver/alice/foo'')"
proof -
  have run1: "handleRequest (demo_authentication []) (demo_server None None) ''alice'' ''foo''
       (demo_headers ''alice'' None) [1, 2, 3, 4]
     = ([CallValidate, CallGetAuthenticationScopes, CallCheckProofs ''alice'' ''foo'' ''http://driver/'',
         CallPerformWrite \<lparr> storageTopLevel = ''alice'', path = ''foo'', stream = [1, 2, 3, 4],
                             contentType = ''application/octet-stream'', contentLength = Num 4 \<rparr>,
         RunUrlRewrite ''http://driver/alice/foo''],
        Resolved ''http://driver/alice/foo'')"
    by (simp add: handleRequest_defs demo_defs parseInt_defs)
  have run2: "handleRequest (demo_authentication []) (demo_server None None) ''alice'' ''foo''
       (demo_headers ''alice'' (Some ''text/plain'')) [1, 2, 3, 4]
     = ([CallValidate, CallGetAuthenticationScopes, CallCheckProofs ''alice'' ''foo'' ''http://driver/'',
         CallPerformWrite \<lparr> storageTopLevel = ''alice'', path = ''foo'', stream = [1, 2, 3, 4],
                             contentType = ''text/plain'', contentLength = Num 4 \<rparr>,
         RunUrlRewrite ''http://driver/alice/foo''],
        Resolved ''http://driver/alice/foo'')"
    by (simp add: handleRequest_defs demo_defs parseInt_defs)
  from handleRequest_content_type [OF run1] handleRequest_content_type [OF run2] run1 run2
  show ?thesis by simp
qed

subsection \<open>Issuing tokens\<close>

text \<open>
  C3 (as the code has it). \<open>makeLegacyAuthToken\<close> succeeds exactly when the challenge
  text parses as JSON to a value whose element 0 is the string \<open>gaiahub\<close> and whose
  element 3 is the string \<open>blockstack_storage_please_sign\<close> (for an array: at least four
  elements, with these two at indices 0 and 3) and the key operations succeed; it then
  returns the base64 encoding of the JSON text of \<open>{publickey, signature}\<close>. A text that
  does not parse fails with a plain \<open>Error\<close> (parsing failed), and one that parses to a
  value other than \<open>null\<close> without the marker and the sentinel fails with a plain
  \<open>Error\<close> (failed to connect to a legacy hub).
\<close>

theorem makeLegacyAuthToken_cases:
  "(makeLegacyAuthToken (lib :: 'n wire_lib) text key = Inr tok \<longleftrightarrow>
      (\<exists>parsed signer pk.
          JSON_parse lib text = Some parsed
        \<and> js_index parsed 0 = Inr (Some (JString ''gaiahub''))
        \<and> js_index parsed 3 = Inr (Some (JString ''blockstack_storage_please_sign''))
        \<and> hexStringToECPair lib (take 64 key @ ''01'') = Inr signer
        \<and> getPublicKeyFromPrivate lib (take 64 key) = Inr pk
        \<and> tok = base64 lib (stringify_object lib
                   [(''publickey'', pk),
                    (''signature'', sign_DER_hex lib signer (sha256 lib text))])))
   \<and> (JSON_parse lib text = None \<longrightarrow>
        makeLegacyAuthToken lib text key
          = Inl (Error ''Failed in parsing legacy challenge text from the gaia hub.''))
   \<and> (\<forall>parsed. JSON_parse lib text = Some parsed \<and> parsed \<noteq> JNull
          \<and> \<not> (js_index parsed 0 = Inr (Some (JString ''gaiahub''))
               \<and> js_index parsed 3 = Inr (Some (JString ''blockstack_storage_please_sign'')))
        \<longrightarrow> makeLegacyAuthToken lib text key
              = Inl (Error ''Failed to connect to legacy gaia hub. If you operate this hub, please update.''))
   \<and> (\<forall>xs. (js_index (JArray xs :: 'n json) 0 = Inr (Some (JString ''gaiahub''))
             \<and> js_index (JArray xs :: 'n json) 3 = Inr (Some (JString ''blockstack_storage_please_sign'')))
          \<longleftrightarrow> (4 \<le> length xs \<and> xs ! 0 = JString ''gaiahub''
               \<and> xs ! 3 = JString ''blockstack_storage_please_sign''))"
proof (intro conjI allI impI)
  show "makeLegacyAuthToken lib text key = Inr tok \<longleftrightarrow>
      (\<exists>parsed signer pk.
          JSON_parse lib text = Some parsed
        \<and> js_index parsed 0 = Inr (Some (JString ''gaiahub''))
        \<and> js_index parsed 3 = Inr (Some (JString ''blockstack_storage_please_sign''))
        \<and> hexStringToECPair lib (take 64 key @ ''01'') = Inr signer
        \<and> getPublicKeyFromPrivate lib (take 64 key) = Inr pk
        \<and> tok = base64 lib (stringify_object lib
                   [(''publickey'', pk),
                    (''signature'', sign_DER_hex lib signer (sha256 lib text))]))"
    by (auto simp: makeLegacyAuthToken_def is_legacy_challenge_def Let_def
             split: option.splits sum.splits bool.splits if_splits)
next
  assume "JSON_parse lib text = None"
  then show "makeLegacyAuthToken lib text key
          = Inl (Error ''Failed in parsing legacy challenge text from the gaia hub.'')"
    by (simp add: makeLegacyAuthToken_def)
next
  fix parsed :: "'n json"
  assume h: "JSON_parse lib text = Some parsed \<and> parsed \<noteq> JNull
          \<and> \<not> (js_index parsed 0 = Inr (Some (JString ''gaiahub''))
               \<and> js_index parsed 3 = Inr (Some (JString ''blockstack_storage_please_sign'')))"
  then have "is_legacy_challenge parsed = Inr False"
    by (cases parsed) (auto simp: is_legacy_challenge_def)
  with h show "makeLegacyAuthToken lib text key
              = Inl (Error ''Failed to connect to legacy gaia hub. If you operate this hub, please update.'')"
    by (simp add: makeLegacyAuthToken_def)
next
  fix xs :: "'n json list"
  show "(js_index (JArray xs) 0 = Inr (Some (JString ''gaiahub''))
             \<and> js_index (JArray xs) 3 = Inr (Some (JString ''blockstack_storage_please_sign'')))
          \<longleftrightarrow> (4 \<le> length xs \<and> xs ! 0 = JString ''gaiahub''
               \<and> xs ! 3 = JString ''blockstack_storage_please_sign'')"
    by auto
qed

theorem makeLegacyAuthToken_cases_witness:
  "makeLegacyAuthToken demo_wire_lib legacy_challenge ''k1''
     = Inr ''base64(publickey=pub(k1);signature=sig;)''
   \<and> makeLegacyAuthToken demo_wire_lib ''not json'' ''k1''
     = Inl (Error ''Failed in parsing legacy challenge text from the gaia hub.'')
   \<and> makeLegacyAuthToken demo_wire_lib other_challenge ''k1''
     = Inl (Error ''Failed to connect to legacy gaia hub. If you operate this hub, please update.'')"
  using makeLegacyAuthToken_cases [of demo_wire_lib legacy_challenge "''k1''"
          "''base64(publickey=pub(k1);signature=sig;)''"]
        makeLegacyAuthToken_cases [of demo_wire_lib "''not json''" "''k1''" "[]"]
        makeLegacyAuthToken_cases [of demo_wire_lib other_challenge "''k1''" "[]"]
  by (simp add: wire_demo_defs)

text \<open>
  The claim as first stated fails: a five-element array with the marker and the sentinel
  in place is signed, and the two failures are plain \<open>Error\<close>s; the client has no
  error class of its own.
\<close>

theorem makeLegacyAuthToken_claim_counterexample:
  "JSON_parse demo_wire_lib long_challenge
     = Some (JArray [JString ''gaiahub'', JString ''0'', JString ''gaia-0'',
                     JString ''blockstack_storage_please_sign'', JString ''more''])
   \<and> makeLegacyAuthToken demo_wire_lib long_challenge ''k1''
     = Inr ''base64(publickey=pub(k1);signature=sig;)''
   \<and> makeLegacyAuthToken demo_wire_lib other_challenge ''k1''
     = Inl (Error ''Failed to connect to legacy gaia hub. If you operate this hub, please update.'')
   \<and> makeLegacyAuthToken demo_wire_lib ''not json'' ''k1''
     = Inl (Error ''Failed in parsing legacy challenge text from the gaia hub.'')"
  by (simp add: wire_demo_defs makeLegacyAuthToken_def is_legacy_challenge_def)

text \<open>
  C4. \<open>makeAuthToken\<close> takes the legacy path when the hub reports no
  \<open>latest_auth_version\<close> or a version below 1 (or none that reads as a number), and the
  v1 path exactly when the reported version is 1 or greater; a v1 token is a string that
  starts with \<open>v1:\<close>. The reported version is the number that \<open>parseInt\<close> with radix 10
  reads after the first character of the version string, as in \<open>v1\<close>.
\<close>

theorem makeAuthToken_version_selection:
  "(latest_auth_version hubInfo = None \<longrightarrow>
      makeAuthToken lib hubInfo key url assoc = makeLegacyAuthToken lib (challenge_text hubInfo) key)
   \<and> (\<forall>v. latest_auth_version hubInfo = Some v \<longrightarrow>
        (case parseInt_radix10 (drop 1 v) of
           Num n \<Rightarrow>
             if 1 \<le> n
             then makeAuthToken lib hubInfo key url assoc
                    = makeV1AuthToken lib key (challenge_text hubInfo) assoc (Some url)
             else makeAuthToken lib hubInfo key url assoc
                    = makeLegacyAuthToken lib (challenge_text hubInfo) key
         | PosInfinity \<Rightarrow>
             makeAuthToken lib hubInfo key url assoc
               = makeV1AuthToken lib key (challenge_text hubInfo) assoc (Some url)
         | _ \<Rightarrow> makeAuthToken lib hubInfo key url assoc
                  = makeLegacyAuthToken lib (challenge_text hubInfo) key))
   \<and> (\<forall>tok. makeV1AuthToken lib key c assoc' url' = Inr tok \<longrightarrow> prefix ''v1:'' tok)"
proof (intro conjI allI impI)
  assume "latest_auth_version hubInfo = None"
  then show "makeAuthToken lib hubInfo key url assoc = makeLegacyAuthToken lib (challenge_text hubInfo) key"
    by (simp add: makeAuthToken_def handlesV1Auth_def)
next
  fix v assume v: "latest_auth_version hubInfo = Some v"
  show "case parseInt_radix10 (drop 1 v) of
           Num n \<Rightarrow>
             if 1 \<le> n
             then makeAuthToken lib hubInfo key url assoc
                    = makeV1AuthToken lib key (challenge_text hubInfo) assoc (Some url)
             else makeAuthToken lib hubInfo key url assoc
                    = makeLegacyAuthToken lib (challenge_text hubInfo) key
         | PosInfinity \<Rightarrow>
             makeAuthToken lib hubInfo key url assoc
               = makeV1AuthToken lib key (challenge_text hubInfo) assoc (Some url)
         | _ \<Rightarrow> makeAuthToken lib hubInfo key url assoc
                  = makeLegacyAuthToken lib (challenge_text hubInfo) key"
  proof (cases "v = []")
    case True
    with v show ?thesis
      by (simp add: makeAuthToken_def handlesV1Auth_def parseInt_examples)
  next
    case False
    with v show ?thesis
      by (simp add: makeAuthToken_def handlesV1Auth_def split: js_number.splits)
  qed
next
  fix tok assume "makeV1AuthToken lib key c assoc' url' = Inr tok"
  then show "prefix ''v1:'' tok"
    by (auto simp: makeV1AuthToken_def Let_def prefix_def split: sum.splits)
qed

theorem makeAuthToken_version_selection_witness:
  "makeAuthToken demo_wire_lib (demo_hub_info (Some ''v1'')) ''k1'' ''https://hub'' None
     = Inr (''v1:jwt('' @ legacy_challenge @ '')'')
   \<and> makeAuthToken demo_wire_lib (demo_hub_info (Some [CHR ''v'', CHR 0xA0, CHR ''1''])) ''k1''
        ''https://hub'' None
     = Inr (''v1:jwt('' @ legacy_challenge @ '')'')
   \<and> makeAuthToken demo_wire_lib (demo_hub_info (Some ''v0'')) ''k1'' ''https://hub'' None
     = Inr ''base64(publickey=pub(k1);signature=sig;)''
   \<and> makeAuthToken demo_wire_lib (demo_hub_info None) ''k1'' ''https://hub'' None
     = Inr ''base64(publickey=pub(k1);signature=sig;)''"
  using makeAuthToken_version_selection [of "demo_hub_info (Some ''v1'')" demo_wire_lib "''k1''"
          "''https://hub''" None "''c''" None None]
        makeAuthToken_version_selection [of "demo_hub_info (Some [CHR ''v'', CHR 0xA0, CHR ''1''])"
          demo_wire_lib "''k1''" "''https://hub''" None "''c''" None None]
        makeAuthToken_version_selection [of "demo_hub_info (Some ''v0'')" demo_wire_lib "''k1''"
          "''https://hub''" None "''c''" None None]
        makeAuthToken_version_selection [of "demo_hub_info None" demo_wire_lib "''k1''"
          "''https://hub''" None "''c''" None None]
  by (simp add: wire_demo_defs parseInt_defs makeLegacyAuthToken_def is_legacy_challenge_def
        makeV1AuthToken_def)

subsection \<open>The revoke-all route\<close>




lemma revoke_all_route_examples:
  "revoke_all_route sample_number_ops demo_handleAuthBump
       (demo_request ''alice'' []
          (Some (JObject [(''oldestValidTimestamp'', JString [CHR 0xA0, CHR ''4'', CHR ''2''])])))
     = ([(''alice'', Num 42)], Responded 202 [(''status'', ''success'')])"
  "revoke_all_route sample_number_ops demo_handleAuthBump
       (demo_request ''alice'' []
          (Some (JObject [(''oldestValidTimestamp'', JString ''9007199254740993'')])))
     = ([(''alice'', Num 9007199254740992)], Responded 202 [(''status'', ''success'')])"
  "revoke_all_route sample_number_ops demo_handleAuthBump
       (demo_request ''alice'' []
          (Some (JObject [(''oldestValidTimestamp'', JArray [JNumber Timestamp_1600000000])])))
     = ([(''alice'', Num 1600000000)], Responded 202 [(''status'', ''success'')])"
  "revoke_all_route sample_number_ops demo_handleAuthBump
       (demo_request ''alice'' []
          (Some (JObject [(''oldestValidTimestamp'', JObject [(''toString'', JNumber Zero)])])))
     = ([], Escaped (TypeError ''Cannot convert object to primitive value''))"
  by (simp_all add: route_defs parseInt_defs bit_length_54 Let_def)

subsection \<open>The store route\<close>

text \<open>
  What the store route answers for each result of \<open>handleRequest\<close>: status 202 with the
  public URL for a fulfilled promise, 401, 401, 403 and 402 for a promise rejected with the
  four known error classes, 500 with a fixed message for any other rejection. An error
  that \<open>handleRequest\<close> throws before it returns a promise is not caught by the route.
\<close>

lemma store_route_replies:
  "handleRequest au srv (param0 req)
      (if param1 req \<noteq> [] \<and> last (param1 req) = CHR ''/'' then butlast (param1 req) else param1 req)
      (headers req) (incoming req) = (steps, out) \<Longrightarrow>
   store_route au srv req =
     (steps,
      case out of
        Resolved publicURL \<Rightarrow> Responded 202 [(''publicURL'', publicURL)]
      | Rejected (ValidationError m) \<Rightarrow>
          Responded 401 [(''message'', m), (''error'', ''ValidationError'')]
      | Rejected (AuthTokenTimestampValidationError m) \<Rightarrow>
          Responded 401 [(''message'', m), (''error'', ''AuthTokenTimestampValidationError'')]
      | Rejected (BadPathError m) \<Rightarrow>
          Responded 403 [(''message'', m), (''error'', ''BadPathError'')]
      | Rejected (NotEnoughProofError m) \<Rightarrow>
          Responded 402 [(''message'', m), (''error'', ''NotEnoughProofError'')]
      | Rejected (Error m) \<Rightarrow> Responded 500 [(''message'', ''Server Error'')]
      | Rejected (TypeError m) \<Rightarrow> Responded 500 [(''message'', ''Server Error'')]
      | Rejected (OtherError n m) \<Rightarrow> Responded 500 [(''message'', ''Server Error'')]
      | Thrown e \<Rightarrow> Escaped e)"
  by (simp add: store_route_def Let_def split: outcome.splits js_error.splits)

lemma store_route_examples:
  "store_route (demo_authentication []) (demo_server None None) (demo_request ''bob'' ''file.txt/'' None)
     = ([CallValidate, CallGetAuthenticationScopes, CallCheckProofs ''bob'' ''file.txt'' ''http://driver/'',
         CallPerformWrite \<lparr> storageTopLevel = ''bob'', path = ''file.txt'', stream = [],
                             contentType = ''application/octet-stream'', contentLength = Num 4 \<rparr>,
         RunUrlRewrite ''http://driver/bob/file.txt''],
        Responded 202 [(''publicURL'', ''http://driver/bob/file.txt'')])"
  "snd (store_route (demo_authentication []) (demo_server None None) (demo_request ''bob'' ''unproven'' None))
     = Responded 402 [(''message'', ''Not enough social proofs''), (''error'', ''NotEnoughProofError'')]"
  "snd (store_route (demo_authentication []) (demo_server None None) (demo_request ''bob'' ''..'' None))
     = Responded 403 [(''message'', ''Invalid Path''), (''error'', ''BadPathError'')]"
  by (simp_all add: store_route_def Let_def handleRequest_defs demo_defs demo_request_def parseInt_defs)

text \<open>
  C6 (the failing requests). \<open>validate\<close> and the scope check throw their
  \<open>ValidationError\<close> inside \<open>handleRequest\<close> before any promise exists. For a write by an
  address outside the whitelist, and for a write to a path outside the token's scopes, the
  \<open>.catch\<close> handler of the store route therefore does not run: the error leaves the route
  handler and the route writes no 401 response.
\<close>

theorem store_route_thrown_validation_error:
  "store_route (demo_authentication []) (demo_server (Some [''alice'']) None)
       (demo_request ''bob'' ''file.txt'' None)
     = ([CallValidate], Escaped (ValidationError ''Address bob not authorized for writes''))
   \<and> store_route (demo_authentication [\<lparr>scope = ''putFilePrefix'', domain = ''a/''\<rparr>])
       (demo_server None None) (demo_request ''bob'' ''b/a'' None)
     = ([CallValidate, CallGetAuthenticationScopes],
        Escaped (ValidationError ''Address bob not authorized to write to b/a by scopes''))"
  by (simp add: store_route_def Let_def handleRequest_defs demo_defs demo_request_def)

end
